theory Spec2Isabelle
  imports Main "HOL-Library.Char_ord" "HOL-Library.List_Lexorder"
begin

section \<open>Python strings\<close>

text \<open>
  A Python \<^verbatim>\<open>str\<close> is a sequence of code points. It is modelled as a \<^typ>\<open>string\<close>
  whose characters are the code points U+0000 to U+00FF: every character the program's
  patterns name (\<^verbatim>\<open>c-cedilla\<close> is U+00E7, \<^verbatim>\<open>a-tilde\<close> is U+00E3) lies in that range. The
  character classes below are those of CPython for that range: \<^verbatim>\<open>str.isspace\<close> and the
  regular expression classes \<^verbatim>\<open>\s\<close>, \<^verbatim>\<open>\w\<close>, \<^verbatim>\<open>\d\<close> on \<^verbatim>\<open>str\<close> patterns, and
  \<^verbatim>\<open>str.lower\<close>.
\<close>

definition is_space :: "char \<Rightarrow> bool" where
  "is_space c = (let n = (of_char c :: int) in
     (9 \<le> n \<and> n \<le> 13) \<or> (28 \<le> n \<and> n \<le> 32) \<or> n = 133 \<or> n = 160)"

definition is_digit :: "char \<Rightarrow> bool" where
  "is_digit c = (let n = (of_char c :: int) in 48 \<le> n \<and> n \<le> 57)"

definition word_char :: "char \<Rightarrow> bool" where
  "word_char c = (let n = (of_char c :: int) in
     (48 \<le> n \<and> n \<le> 57) \<or> (65 \<le> n \<and> n \<le> 90) \<or> n = 95 \<or> (97 \<le> n \<and> n \<le> 122) \<or>
     n = 170 \<or> n = 178 \<or> n = 179 \<or> n = 181 \<or> n = 185 \<or> n = 186 \<or>
     n = 188 \<or> n = 189 \<or> n = 190 \<or> (192 \<le> n \<and> n \<noteq> 215 \<and> n \<noteq> 247))"

definition lower_char :: "char \<Rightarrow> char" where
  "lower_char c = (let n = (of_char c :: int) in
     if (65 \<le> n \<and> n \<le> 90) \<or> (192 \<le> n \<and> n \<le> 222 \<and> n \<noteq> 215)
     then char_of (n + 32) else c)"

definition lower :: "string \<Rightarrow> string" where
  "lower s = map lower_char s"

definition strip :: "string \<Rightarrow> string" where
  "strip s = rev (dropWhile is_space (rev (dropWhile is_space s)))"

text \<open>\<^verbatim>\<open>s.split(sep)\<close> for a separator of one character: never the empty list.\<close>

fun split_char :: "char \<Rightarrow> string \<Rightarrow> string list" where
  "split_char sep [] = [[]]"
| "split_char sep (c # cs) =
     (if c = sep then [] # split_char sep cs
      else (case split_char sep cs of
              [] \<Rightarrow> [[c]]
            | p # ps \<Rightarrow> (c # p) # ps))"

text \<open>\<^verbatim>\<open>sep.join(parts)\<close>.\<close>

fun join :: "string \<Rightarrow> string list \<Rightarrow> string" where
  "join sep [] = []"
| "join sep [p] = p"
| "join sep (p # q # ps) = p @ sep @ join sep (q # ps)"

section \<open>Regular expressions of the program\<close>

text \<open>
  \<^verbatim>\<open>\b\<close> at a position of the text: exactly one of the characters before and after
  the position is a word character (a missing character counts as a non-word character).
  \<open>prev\<close> tells whether the character before the position is a word character, \<open>rest\<close>
  is the text from the position on.
\<close>

definition word_boundary :: "bool \<Rightarrow> string \<Rightarrow> bool" where
  "word_boundary prev rest = (prev \<noteq> (rest \<noteq> [] \<and> word_char (hd rest)))"

text \<open>\<^verbatim>\<open>\bw\b\<close> matches at the position: \<open>w\<close> stands there between two word boundaries.\<close>

definition word_here :: "bool \<Rightarrow> string \<Rightarrow> string \<Rightarrow> bool" where
  "word_here prev rest w =
     (word_boundary prev rest \<and> take (length w) rest = w \<and>
      word_boundary (if w = [] then prev else word_char (last w)) (drop (length w) rest))"

text \<open>
  \<^verbatim>\<open>re.search(r"\b(w1|w2|...)\b", s)\<close> finds a match: with backtracking over the start
  position and the alternatives, there is one exactly when some alternative stands at
  some position (the end of the text included) with a word boundary on both of its sides.
\<close>

fun search_from :: "string list \<Rightarrow> bool \<Rightarrow> string \<Rightarrow> bool" where
  "search_from ws prev [] = list_ex (word_here prev []) ws"
| "search_from ws prev (c # cs) =
     (list_ex (word_here prev (c # cs)) ws \<or> search_from ws (word_char c) cs)"

definition search_words :: "string list \<Rightarrow> string \<Rightarrow> bool" where
  "search_words ws s = search_from ws False s"

section \<open>Sentences and the takeaway\<close>

definition is_terminal :: "char \<Rightarrow> bool" where
  "is_terminal c = (c = CHR ''.'' \<or> c = CHR ''!'' \<or> c = CHR ''?'')"

text \<open>
  \<^verbatim>\<open>re.split(r"(?<=[.!?])\s+", text)\<close>: scanning from the left, a separator starts at the
  first whitespace character whose predecessor is a terminal character and runs over all
  the whitespace that follows. \<open>cur\<close> is the piece read since the last separator.
\<close>

function re_split_sentences :: "string \<Rightarrow> string \<Rightarrow> string list" where
  "re_split_sentences cur [] = [cur]"
| "re_split_sentences cur (c # cs) =
     (if cur \<noteq> [] \<and> is_terminal (last cur) \<and> is_space c
      then cur # re_split_sentences [] (dropWhile is_space cs)
      else re_split_sentences (cur @ [c]) cs)"
  by pat_completeness auto
termination
  by (relation "measure (\<lambda>(cur, s). length s)")
     (auto simp: length_dropWhile_le less_Suc_eq_le)

definition split_sentences :: "string \<Rightarrow> string list" where
  "split_sentences text =
     map strip (filter (\<lambda>p. strip p \<noteq> []) (re_split_sentences [] text))"

definition intention_words :: "string list" where
  "intention_words =
     [''quero'', ''pretendo'', ''vou'', ''preciso'', ''devo'', ''decidi'', ''planejo'']"

text \<open>
  The search of \<^verbatim>\<open>extract_takeaway\<close> is case-insensitive (\<^verbatim>\<open>re.IGNORECASE\<close>). The
  alternatives are lower-case ASCII words, and in the modelled range a character matches
  a lower-case ASCII letter case-insensitively exactly when its lower-case form is that
  letter, while lower-casing keeps word characters and non-word characters apart; so the
  search is the case-sensitive one on the lower-cased sentence.
\<close>

fun first_intention :: "string list \<Rightarrow> string" where
  "first_intention [] = []"
| "first_intention (s # ss) =
     (if search_words intention_words (lower s) then s else first_intention ss)"

definition extract_takeaway :: "string \<Rightarrow> string" where
  "extract_takeaway text = first_intention (split_sentences text)"

section \<open>The heuristic mood classifier\<close>

text \<open>
  The seven categories of \<^verbatim>\<open>choose_mood\<close>, in the order of the source: the alternatives
  of the pattern and the ranked candidate labels. The character class in the pattern of
  the second category (a or a-tilde before the final o of \<^verbatim>\<open>sem razao\<close>) and in the
  pattern of the fourth (\<^verbatim>\<open>prisao\<close>) is written as two alternatives.
\<close>

definition anxiety_rule :: "string list \<times> string list" where
  "anxiety_rule =
     ([''ansios'', ''ansiedade'', ''preocupad'', ''nervos''],
      [''Anxious'', ''Concerned'', ''Uneasy''])"

definition crisis_rule :: "string list \<times> string list" where
  "crisis_rule =
     ([''depress'', ''morrer'', ''suicid'', ''hopeless'', ''sem razao'',
       ''sem raz'' @ [CHR 0xE3] @ ''o''],
      [''Depressed'', ''Hopeless'', ''Miserable'', ''Down''])"

definition exhaustion_rule :: "string list \<times> string list" where
  "exhaustion_rule =
     ([''cansad'', ''exaust'', ''fatig''],
      [''Exhausted'', ''Tired'', ''Fatigued''])"

definition trapped_rule :: "string list \<times> string list" where
  "trapped_rule =
     ([''preso'', ''prisao'', ''pris'' @ [CHR 0xE3] @ ''o'', ''trancad''],
      [''Trapped''])"

definition frustration_rule :: "string list \<times> string list" where
  "frustration_rule =
     ([''frustr'', ''raiva'', ''irrit'', ''culpa'', ''vergonh''],
      [''Frustrated'', ''Peeved'', ''Guilty'', ''Ashamed''])"

definition motivation_rule :: "string list \<times> string list" where
  "motivation_rule =
     ([''inspir'', ''motivad'', ''orgulh'', ''confian''],
      [''Inspired'', ''Motivated'', ''Proud''])"

definition gratitude_rule :: "string list \<times> string list" where
  "gratitude_rule =
     ([''grat'', ''feliz'', ''bem'', ''esperan'', ''otimi''],
      [''Grateful'', ''Hopeful'', ''Optimistic'', ''Good'', ''Content''])"

definition mood_rules :: "(string list \<times> string list) list" where
  "mood_rules =
     [anxiety_rule, crisis_rule, exhaustion_rule, trapped_rule, frustration_rule,
      motivation_rule, gratitude_rule]"

text \<open>\<^verbatim>\<open>mood_preferences\<close>: the candidate lists of the categories whose pattern matches.\<close>

definition mood_preferences :: "string \<Rightarrow> string list list" where
  "mood_preferences text_l = map snd (filter (\<lambda>r. search_words (fst r) text_l) mood_rules)"

text \<open>
  The inner loop: the first candidate that is in the pool and not chosen yet is appended
  (\<^verbatim>\<open>break\<close>); a list with no such candidate leaves \<open>chosen\<close> as it is.
\<close>

fun pick_first :: "string set \<Rightarrow> string list \<Rightarrow> string list \<Rightarrow> string list" where
  "pick_first pool chosen [] = chosen"
| "pick_first pool chosen (mood # prefs) =
     (if mood \<in> pool \<and> mood \<notin> set chosen then chosen @ [mood]
      else pick_first pool chosen prefs)"

text \<open>The outer loop: it stops once two labels are chosen, tested after each category.\<close>

fun pick_moods :: "string set \<Rightarrow> string list \<Rightarrow> string list list \<Rightarrow> string list" where
  "pick_moods pool chosen [] = chosen"
| "pick_moods pool chosen (prefs # rest) =
     (let chosen' = pick_first pool chosen prefs
      in if 2 \<le> length chosen' then chosen' else pick_moods pool chosen' rest)"

definition fallback_moods :: "string list" where
  "fallback_moods = [''Thoughtful'', ''Mellow'', ''Calm'', ''Neutral'', ''Meh'', ''Balanced'']"

fun pick_fallback :: "string set \<Rightarrow> string list \<Rightarrow> string list" where
  "pick_fallback pool [] = []"
| "pick_fallback pool (fallback # rest) =
     (if fallback \<in> pool then [fallback] else pick_fallback pool rest)"

text \<open>The list \<^verbatim>\<open>chosen\<close> that \<^verbatim>\<open>choose_mood\<close> joins and returns.\<close>

definition choose_mood_chosen :: "string \<Rightarrow> string set \<Rightarrow> bool \<Rightarrow> string list" where
  "choose_mood_chosen text mood_pool allow_fallback =
     (let chosen = pick_moods mood_pool [] (mood_preferences (lower text))
      in if allow_fallback \<and> chosen = [] then pick_fallback mood_pool fallback_moods
         else chosen)"

definition choose_mood :: "string \<Rightarrow> string set \<Rightarrow> bool \<Rightarrow> string" where
  "choose_mood text mood_pool allow_fallback =
     join '';'' (choose_mood_chosen text mood_pool allow_fallback)"

section \<open>Exceptions\<close>

text \<open>The exceptions that the modelled code can raise; a raise is the value \<open>Inl e\<close>.\<close>

datatype exn =
  ValueError | AttributeError | TypeError | OSError
| URLError | HTTPError | JSONDecodeError | UnicodeDecodeError | TimeoutError

section \<open>Calendar dates\<close>

text \<open>
  \<^verbatim>\<open>datetime.date(year, month, day)\<close>: the constructor raises \<^verbatim>\<open>ValueError\<close> unless the year is
  in 1..9999, the month in 1..12 and the day in 1..(days of that month).
\<close>

record date =
  year :: int
  month :: int
  day :: int

definition is_leap :: "int \<Rightarrow> bool" where
  "is_leap y = (y mod 4 = 0 \<and> (y mod 400 = 0 \<or> y mod 100 \<noteq> 0))"

definition month_lengths :: "int list" where
  "month_lengths = [31, 28, 31, 30, 31, 30, 31, 31, 30, 31, 30, 31]"

definition days_in_month :: "int \<Rightarrow> int \<Rightarrow> int" where
  "days_in_month y m = (if m = 2 \<and> is_leap y then 29 else month_lengths ! nat (m - 1))"

definition make_date :: "int \<Rightarrow> int \<Rightarrow> int \<Rightarrow> exn + date" where
  "make_date y m d =
     (if 1 \<le> y \<and> y \<le> 9999 \<and> 1 \<le> m \<and> m \<le> 12 \<and> 1 \<le> d \<and> d \<le> days_in_month y m
      then Inr \<lparr>year = y, month = m, day = d\<rparr>
      else Inl ValueError)"

text \<open>\<^verbatim>\<open>date.weekday()\<close>: Monday is 0; from the proleptic Gregorian ordinal of the day.\<close>

definition days_before_year :: "int \<Rightarrow> int" where
  "days_before_year y = (let y1 = y - 1 in y1 * 365 + y1 div 4 - y1 div 100 + y1 div 400)"

definition days_before_month :: "int \<Rightarrow> int \<Rightarrow> int" where
  "days_before_month y m =
     sum_list (take (nat (m - 1)) month_lengths) + (if 2 < m \<and> is_leap y then 1 else 0)"

definition toordinal :: "date \<Rightarrow> int" where
  "toordinal d = days_before_year (year d) + days_before_month (year d) (month d) + day d"

definition weekday :: "date \<Rightarrow> int" where
  "weekday d = (toordinal d + 6) mod 7"

section \<open>The date of a page header\<close>

definition PORTUGUESE_MONTHS :: "(string \<times> int) list" where
  "PORTUGUESE_MONTHS =
     [(''janeiro'', 1), (''fevereiro'', 2), (''mar'' @ [CHR 0xE7] @ ''o'', 3), (''marco'', 3),
      (''abril'', 4), (''maio'', 5), (''junho'', 6), (''julho'', 7), (''agosto'', 8),
      (''setembro'', 9), (''outubro'', 10), (''novembro'', 11), (''dezembro'', 12)]"

definition WEEKDAYS_EN :: "string list" where
  "WEEKDAYS_EN = [''Mon'', ''Tue'', ''Wed'', ''Thu'', ''Fri'', ''Sat'', ''Sun'']"

text \<open>\<^verbatim>\<open>int(s)\<close> on a string of decimal digits.\<close>

definition int_of_digits :: "string \<Rightarrow> int" where
  "int_of_digits s = foldl (\<lambda>n c. 10 * n + (of_char c - 48)) 0 s"

definition month_letter :: "char \<Rightarrow> bool" where
  "month_letter c =
     ((97 \<le> (of_char c :: int) \<and> (of_char c :: int) \<le> 122) \<or> c = CHR 0xE7 \<or> c = CHR 0xE3)"

text \<open>
  The pattern \<^verbatim>\<open>(\d{1,2}) de ([a-z...]+) de (\d{4})\<close> at the start of \<open>s\<close>, the day having
  \<open>n\<close> digits. The month group is greedy and must be followed by a space, which is not a
  letter of its class: only the longest run of letters can match.
\<close>

definition date_match_with :: "nat \<Rightarrow> string \<Rightarrow> (string \<times> string \<times> string) option" where
  "date_match_with n s =
     (let d = take n s; r1 = drop n s;
          m = takeWhile month_letter (drop 4 r1);
          r2 = dropWhile month_letter (drop 4 r1);
          y = take 4 (drop 4 r2)
      in if length d = n \<and> list_all is_digit d \<and> take 4 r1 = '' de '' \<and> m \<noteq> [] \<and>
            take 4 r2 = '' de '' \<and> length y = 4 \<and> list_all is_digit y
         then Some (d, m, y) else None)"

text \<open>The day group is greedy: two digits are tried before one.\<close>

definition date_match_here :: "string \<Rightarrow> (string \<times> string \<times> string) option" where
  "date_match_here s =
     (case date_match_with 2 s of Some g \<Rightarrow> Some g | None \<Rightarrow> date_match_with 1 s)"

text \<open>\<^verbatim>\<open>re.search\<close>: the match at the leftmost position that has one.\<close>

fun date_search :: "string \<Rightarrow> (string \<times> string \<times> string) option" where
  "date_search [] = None"
| "date_search (c # cs) =
     (case date_match_here (c # cs) of Some g \<Rightarrow> Some g | None \<Rightarrow> date_search cs)"

definition replace_cedilla :: "string \<Rightarrow> string" where
  "replace_cedilla s = map (\<lambda>c. if c = CHR 0xE7 then CHR ''c'' else c) s"

text \<open>
  \<^verbatim>\<open>parse_date_from_header\<close>: \<open>Inr None\<close> is the return value \<^verbatim>\<open>None\<close>, \<open>Inl e\<close> an
  exception that leaves the function.
\<close>

definition parse_date_from_header :: "string \<Rightarrow> exn + date option" where
  "parse_date_from_header header_text =
     (case date_search (lower (strip header_text)) of
        None \<Rightarrow> Inr None
      | Some (g1, g2, g3) \<Rightarrow>
          (case map_of PORTUGUESE_MONTHS (replace_cedilla g2) of
             None \<Rightarrow> Inr None
           | Some m \<Rightarrow>
               (case make_date (int_of_digits g3) m (int_of_digits g1) of
                  Inl e \<Rightarrow> Inl e
                | Inr d \<Rightarrow> Inr (Some d))))"

section \<open>The date string of a record\<close>

text \<open>Decimal digits of a non-negative integer.\<close>

function show_int :: "int \<Rightarrow> string" where
  "show_int n =
     (if n < 10 then [char_of (48 + n)] else show_int (n div 10) @ [char_of (48 + n mod 10)])"
  by pat_completeness auto
termination
  by (relation "measure nat") auto

definition pad2 :: "int \<Rightarrow> string" where
  "pad2 n = (if n < 10 then ''0'' @ show_int n else show_int n)"

text \<open>
  \<^verbatim>\<open>datetime.strptime(s, "%I:%M %p")\<close>. The library turns the format into the regular
  expression \<^verbatim>\<open>(1[0-2]|0[1-9]|[1-9]):([0-5]\d|\d)\s+(am|pm)\<close>, matched case-insensitively at
  the start of \<open>s\<close>, and raises \<^verbatim>\<open>ValueError\<close> when it does not match or text remains.
  Each group is modelled by the list of its possible matches, in the order in which
  backtracking tries them, with the text that remains.
\<close>

fun hour_matches :: "string \<Rightarrow> (int \<times> string) list" where
  "hour_matches [] = []"
| "hour_matches [a] = (if a \<in> set ''123456789'' then [(int_of_digits [a], [])] else [])"
| "hour_matches (a # b # r) =
     (if a = CHR ''1'' \<and> b \<in> set ''012'' then [(int_of_digits [a, b], r)] else []) @
     (if a = CHR ''0'' \<and> b \<in> set ''123456789'' then [(int_of_digits [a, b], r)] else []) @
     (if a \<in> set ''123456789'' then [(int_of_digits [a], b # r)] else [])"

fun minute_matches :: "string \<Rightarrow> (int \<times> string) list" where
  "minute_matches [] = []"
| "minute_matches [a] = (if is_digit a then [(int_of_digits [a], [])] else [])"
| "minute_matches (a # b # r) =
     (if a \<in> set ''012345'' \<and> is_digit b then [(int_of_digits [a, b], r)] else []) @
     (if is_digit a then [(int_of_digits [a], b # r)] else [])"

text \<open>The rest of the pattern after the minute: whitespace, then \<^verbatim>\<open>am\<close> or \<^verbatim>\<open>pm\<close>.\<close>

definition ampm_matches :: "string \<Rightarrow> (bool \<times> string) list" where
  "ampm_matches r =
     (let r' = dropWhile is_space r; w = lower (take 2 r')
      in if r \<noteq> [] \<and> is_space (hd r) \<and> (w = ''am'' \<or> w = ''pm'')
         then [(w = ''pm'', drop 2 r')] else [])"

definition time_matches :: "string \<Rightarrow> (int \<times> int \<times> bool \<times> string) list" where
  "time_matches s =
     concat (map (\<lambda>(h, r1).
       if r1 \<noteq> [] \<and> hd r1 = CHR '':''
       then concat (map (\<lambda>(m, r2). map (\<lambda>(pm, r3). (h, m, pm, r3)) (ampm_matches r2))
                     (minute_matches (tl r1)))
       else []) (hour_matches s))"

text \<open>The parsed time as (hour of the day, minute).\<close>

definition strptime :: "string \<Rightarrow> exn + int \<times> int" where
  "strptime s =
     (case time_matches s of
        [] \<Rightarrow> Inl ValueError
      | (h, m, pm, rest) # _ \<Rightarrow>
          if rest \<noteq> [] then Inl ValueError
          else Inr (if pm then (if h \<noteq> 12 then h + 12 else h) else (if h = 12 then 0 else h), m))"

definition MONTH_ABBR :: "string list" where
  "MONTH_ABBR = [''Jan'', ''Feb'', ''Mar'', ''Apr'', ''May'', ''Jun'',
                 ''Jul'', ''Aug'', ''Sep'', ''Oct'', ''Nov'', ''Dec'']"

text \<open>
  \<^verbatim>\<open>format_date_for_csv\<close>: the format \<^verbatim>\<open>%Y <weekday> %b %-d %I:%M %p\<close> as the C library
  prints it in the default locale (English month names, \<^verbatim>\<open>AM\<close>/\<^verbatim>\<open>PM\<close>, the year and
  the day without padding).
\<close>

definition format_date_for_csv :: "date \<Rightarrow> string \<Rightarrow> exn + string" where
  "format_date_for_csv date_obj time_str =
     (case strptime (strip time_str) of
        Inl e \<Rightarrow> Inl e
      | Inr (h, mi) \<Rightarrow>
          Inr (show_int (year date_obj) @ '' '' @ WEEKDAYS_EN ! nat (weekday date_obj) @ '' '' @
               MONTH_ABBR ! nat (month date_obj - 1) @ '' '' @ show_int (day date_obj) @ '' '' @
               pad2 (if h mod 12 = 0 then 12 else h mod 12) @ '':'' @ pad2 mi @ '' '' @
               (if h < 12 then ''AM'' else ''PM'')))"

section \<open>Text normalisation\<close>

text \<open>\<^verbatim>\<open>re.sub(r"\s+", " ", text)\<close>: every maximal run of whitespace becomes one space.\<close>

function collapse_spaces :: "string \<Rightarrow> string" where
  "collapse_spaces [] = []"
| "collapse_spaces (c # cs) =
     (if is_space c then CHR '' '' # collapse_spaces (dropWhile is_space cs)
      else c # collapse_spaces cs)"
  by pat_completeness auto
termination
  by (relation "measure length") (auto simp: length_dropWhile_le less_Suc_eq_le)

definition normalize_text :: "string \<Rightarrow> string" where
  "normalize_text text = strip (collapse_spaces text)"

section \<open>The markup parser\<close>

text \<open>
  The library's \<^verbatim>\<open>HTMLParser.feed\<close> tokenises the page and calls the three handlers of
  \<^verbatim>\<open>JournalHTMLParser\<close>; a page is modelled by the sequence of these calls. An attribute
  without a value has the value \<^verbatim>\<open>None\<close>. \<open>Data d\<close> is a call \<^verbatim>\<open>handle_data(data)\<close> with
  \<open>d\<close> the text \<^verbatim>\<open>html.unescape(data)\<close>, the library's decoding of character references.
\<close>

datatype event =
  StartTag string "(string \<times> string option) list"
| EndTag string
| Data string

record parser =
  in_body :: bool
  in_page_header :: bool
  in_title :: bool
  text_parts :: "string list"
  page_header :: string
  title :: string
  stack :: "string list"

definition new_parser :: parser where
  "new_parser = \<lparr>in_body = False, in_page_header = False, in_title = False,
                  text_parts = [], page_header = [], title = [], stack = []\<rparr>"

text \<open>The dictionary built from the attribute pairs keeps the last value of a name.\<close>

definition attr_class :: "(string \<times> string option) list \<Rightarrow> string option option" where
  "attr_class attrs = map_of (rev attrs) ''class''"

definition handle_starttag :: "parser \<Rightarrow> string \<Rightarrow> (string \<times> string option) list \<Rightarrow> parser" where
  "handle_starttag p tag attrs =
     (let p1 = (if tag = ''body'' then p\<lparr>in_body := True\<rparr> else p)
      in if \<not> in_body p1 then p1
         else
           let p2 = (if tag = ''div'' \<and> attr_class attrs = Some (Some ''pageHeader'')
                     then p1\<lparr>in_page_header := True\<rparr> else p1);
               p3 = (if tag = ''div'' \<and> attr_class attrs = Some (Some ''title'')
                     then p2\<lparr>in_title := True\<rparr> else p2);
               p4 = (if tag \<in> {''p'', ''li'', ''br''}
                     then p3\<lparr>text_parts := text_parts p3 @ [[CHR 0x0A]]\<rparr> else p3)
           in p4\<lparr>stack := stack p4 @ [tag]\<rparr>)"

definition handle_endtag :: "parser \<Rightarrow> string \<Rightarrow> parser" where
  "handle_endtag p tag =
     (let p1 = (if tag = ''body'' then p\<lparr>in_body := False\<rparr> else p);
          p2 = (if tag = ''div''
                then let q = (if in_page_header p1 then p1\<lparr>in_page_header := False\<rparr> else p1)
                     in (if in_title q then q\<lparr>in_title := False\<rparr> else q)
                else p1)
      in if stack p2 \<noteq> [] then p2\<lparr>stack := butlast (stack p2)\<rparr> else p2)"

definition handle_data :: "parser \<Rightarrow> string \<Rightarrow> parser" where
  "handle_data p text =
     (if \<not> in_body p then p
      else if in_page_header p then p\<lparr>page_header := page_header p @ text\<rparr>
      else if in_title p then p\<lparr>title := title p @ text\<rparr>
      else p\<lparr>text_parts := text_parts p @ [text]\<rparr>)"

fun handle :: "parser \<Rightarrow> event \<Rightarrow> parser" where
  "handle p (StartTag tag attrs) = handle_starttag p tag attrs"
| "handle p (EndTag tag) = handle_endtag p tag"
| "handle p (Data text) = handle_data p text"

definition feed :: "parser \<Rightarrow> event list \<Rightarrow> parser" where
  "feed p content = foldl handle p content"

text \<open>
  \<^verbatim>\<open>process_html_file\<close> on the content of a file. The bullet glyph that the function
  replaces by a dash is the code point U+2022, outside the modelled range of characters:
  on the modelled texts the substitution changes nothing. An exception of
  \<^verbatim>\<open>parse_date_from_header\<close> is not caught here.
\<close>

definition process_html_file :: "event list \<Rightarrow> exn + (date option \<times> string \<times> string)" where
  "process_html_file content =
     (let p = feed new_parser content;
          body_text = normalize_text (join '' '' (text_parts p));
          ttl = normalize_text (title p)
      in case parse_date_from_header (page_header p) of
           Inl e \<Rightarrow> Inl e
         | Inr date_obj \<Rightarrow> Inr (date_obj, ttl, body_text))"

section \<open>The record store and the mood pool\<close>

text \<open>
  A text file that the run opens and reads: it does not exist; it exists and \<^verbatim>\<open>open\<close>
  raises \<^verbatim>\<open>OSError\<close>; its bytes are not UTF-8, so that reading it raises
  \<^verbatim>\<open>UnicodeDecodeError\<close>; or it has a content. The content of a file of mood labels is
  the list of its lines, the content of the record store is the list of rows that
  \<^verbatim>\<open>csv.reader\<close> yields, the header row first.
\<close>

datatype 'a disk_file = Absent | Denied | Undecodable | Content 'a

text \<open>
  \<^verbatim>\<open>load_moods_file\<close> returns no mood for a missing file and catches \<^verbatim>\<open>OSError\<close>; it
  catches nothing else.
\<close>

definition load_moods_file :: "string list disk_file \<Rightarrow> exn + string list" where
  "load_moods_file f =
     (case f of
        Absent \<Rightarrow> Inr []
      | Denied \<Rightarrow> Inr []
      | Undecodable \<Rightarrow> Inl UnicodeDecodeError
      | Content lines \<Rightarrow>
          Inr (filter (\<lambda>line. line \<noteq> [] \<and> hd line \<noteq> CHR ''#'') (map strip lines)))"

definition add_row_moods :: "string list \<Rightarrow> string set \<Rightarrow> string set" where
  "add_row_moods row moods =
     (if length row < 2 then moods
      else let mood_field = strip (row ! 1)
           in if mood_field = [] then moods
              else moods \<union> set (filter (\<lambda>mood. mood \<noteq> [])
                                   (map strip (split_char CHR '';'' mood_field))))"

text \<open>\<^verbatim>\<open>load_existing_moods\<close> returns no mood for a missing store and catches nothing.\<close>

definition load_existing_moods :: "string list list disk_file \<Rightarrow> exn + string set" where
  "load_existing_moods csv =
     (case csv of
        Absent \<Rightarrow> Inr {}
      | Denied \<Rightarrow> Inl OSError
      | Undecodable \<Rightarrow> Inl UnicodeDecodeError
      | Content [] \<Rightarrow> Inr {}
      | Content (headers # rows) \<Rightarrow>
          Inr (if headers = [] then {} else fold add_row_moods rows {}))"

definition build_mood_pool :: "string set \<Rightarrow> string list \<Rightarrow> string set" where
  "build_mood_pool existing_moods extra_moods = existing_moods \<union> set extra_moods"

type_synonym dedup_key = "string \<times> string \<times> string"

definition add_row_key :: "string list \<Rightarrow> dedup_key set \<Rightarrow> dedup_key set" where
  "add_row_key row keys =
     (if length row < 1 then keys
      else let date_str = strip (row ! 0);
               notes = (if 15 < length row then strip (row ! 15) else []);
               reflections = (if 16 < length row then strip (row ! 16) else [])
           in insert (take 10 date_str, take 40 notes, take 40 reflections) keys)"

definition parse_existing_keys :: "string list list disk_file \<Rightarrow> exn + dedup_key set" where
  "parse_existing_keys csv =
     (case csv of
        Absent \<Rightarrow> Inr {}
      | Denied \<Rightarrow> Inl OSError
      | Undecodable \<Rightarrow> Inl UnicodeDecodeError
      | Content [] \<Rightarrow> Inr {}
      | Content (headers # rows) \<Rightarrow>
          Inr (if headers = [] then {} else fold add_row_key rows {}))"

definition build_row :: "string \<Rightarrow> string \<Rightarrow> string \<Rightarrow> string \<Rightarrow> string \<Rightarrow> string list" where
  "build_row date_str mood notes reflections takeaways =
     [date_str, mood,
      [], [], [], [], [], [], [], [], [], [], [], [], [],
      notes, reflections, takeaways]"

section \<open>The remote mood classifier\<close>

text \<open>
  The decoded response of the service is a JSON value: \<^verbatim>\<open>json.loads\<close> gives \<^verbatim>\<open>None\<close>, a
  truth value, a number, a string, a list or a dictionary (its items, each key once).
\<close>

datatype json =
  JNull | JBool bool | JNum int | JStr string | JArr "json list" | JObj "(string \<times> json) list"

text \<open>
  What the block \<^verbatim>\<open>urlopen\<close>, \<^verbatim>\<open>read\<close>, \<^verbatim>\<open>decode\<close>, \<^verbatim>\<open>json.loads\<close> does for a request: it
  raises an exception or gives the decoded payload.
\<close>

datatype fetch = Fails exn | Payload json

text \<open>
  The request: the model, the credential of the \<^verbatim>\<open>Authorization\<close> header, and the parts of
  the prompt (the cap, the sorted labels, the snippet of the text).
\<close>

record request =
  req_model :: string
  req_api_key :: string
  req_max_moods :: int
  req_moods :: "string list"
  req_snippet :: string

text \<open>\<^verbatim>\<open>x.get(key, default)\<close>: only a dictionary has the method.\<close>

definition dict_get :: "json \<Rightarrow> string \<Rightarrow> json \<Rightarrow> exn + json" where
  "dict_get x k dflt =
     (case x of
        JObj kvs \<Rightarrow> Inr (case map_of kvs k of Some v \<Rightarrow> v | None \<Rightarrow> dflt)
      | _ \<Rightarrow> Inl AttributeError)"

text \<open>
  \<^verbatim>\<open>for item in x\<close>: a list gives its elements, a dictionary its keys, a string its
  characters; the other values are not iterable.
\<close>

definition iterate :: "json \<Rightarrow> exn + json list" where
  "iterate x =
     (case x of
        JArr xs \<Rightarrow> Inr xs
      | JObj kvs \<Rightarrow> Inr (map (\<lambda>kv. JStr (fst kv)) kvs)
      | JStr s \<Rightarrow> Inr (map (\<lambda>c. JStr [c]) s)
      | _ \<Rightarrow> Inl TypeError)"

text \<open>The inner loop over the content parts of a message; \<open>raw_text\<close> is the accumulator.\<close>

fun content_loop :: "string \<Rightarrow> json list \<Rightarrow> exn + string" where
  "content_loop raw_text [] = Inr raw_text"
| "content_loop raw_text (content # rest) =
     (case dict_get content ''type'' JNull of
        Inl e \<Rightarrow> Inl e
      | Inr t \<Rightarrow>
          if t = JStr ''output_text''
          then (case dict_get content ''text'' (JStr []) of
                  Inl e \<Rightarrow> Inl e
                | Inr (JStr s) \<Rightarrow> content_loop (raw_text @ s) rest
                | Inr _ \<Rightarrow> Inl TypeError)
          else content_loop raw_text rest)"

text \<open>The outer loop over the output items.\<close>

fun output_loop :: "string \<Rightarrow> json list \<Rightarrow> exn + string" where
  "output_loop raw_text [] = Inr raw_text"
| "output_loop raw_text (item # rest) =
     (case dict_get item ''type'' JNull of
        Inl e \<Rightarrow> Inl e
      | Inr t \<Rightarrow>
          if t = JStr ''message''
          then (case dict_get item ''content'' (JArr []) of
                  Inl e \<Rightarrow> Inl e
                | Inr cs \<Rightarrow>
                    (case iterate cs of
                       Inl e \<Rightarrow> Inl e
                     | Inr parts \<Rightarrow>
                         (case content_loop raw_text parts of
                            Inl e \<Rightarrow> Inl e
                          | Inr raw_text' \<Rightarrow> output_loop raw_text' rest)))
          else output_loop raw_text rest)"

definition response_text :: "json \<Rightarrow> exn + string" where
  "response_text data =
     (case dict_get data ''output'' (JArr []) of
        Inl e \<Rightarrow> Inl e
      | Inr out \<Rightarrow> (case iterate out of Inl e \<Rightarrow> Inl e | Inr items \<Rightarrow> output_loop [] items))"

text \<open>
  The loop over the parts of the answer. An empty part is skipped before the test of the
  cap (\<^verbatim>\<open>continue\<close>); the dictionary gives the label of a lower-cased name.
\<close>

fun llm_pick :: "(string \<rightharpoonup> string) \<Rightarrow> int \<Rightarrow> string list \<Rightarrow> string list \<Rightarrow> string list" where
  "llm_pick moods_lower_map max_moods chosen [] = chosen"
| "llm_pick moods_lower_map max_moods chosen (part # parts) =
     (let mood = strip part
      in if mood = [] then llm_pick moods_lower_map max_moods chosen parts
         else
           let chosen' =
                 (case moods_lower_map (lower mood) of
                    None \<Rightarrow> chosen
                  | Some normalized \<Rightarrow>
                      if normalized \<noteq> [] \<and> normalized \<notin> set chosen
                      then chosen @ [normalized] else chosen)
           in if max_moods \<le> int (length chosen') then chosen'
              else llm_pick moods_lower_map max_moods chosen' parts)"

text \<open>The dictionary comprehension over the sorted labels keeps the last label of a key.\<close>

definition lower_map :: "string list \<Rightarrow> (string \<rightharpoonup> string)" where
  "lower_map moods_sorted = map_of (rev (map (\<lambda>m. (lower m, m)) moods_sorted))"

text \<open>The list \<^verbatim>\<open>chosen\<close> that \<^verbatim>\<open>llm_choose_mood\<close> builds from the text of the answer.\<close>

definition llm_chosen :: "string set \<Rightarrow> int \<Rightarrow> string \<Rightarrow> string list" where
  "llm_chosen existing_moods max_moods raw_text =
     llm_pick (lower_map (sorted_list_of_set existing_moods)) max_moods []
       (split_char CHR '';'' raw_text)"

text \<open>
  \<^verbatim>\<open>llm_choose_mood\<close>, with the network as the function \<open>remote\<close>. The result is the list
  of the requests issued and the returned string, or the exception that leaves the
  function: the \<^verbatim>\<open>except\<close> clause catches \<^verbatim>\<open>URLError\<close>, \<^verbatim>\<open>HTTPError\<close> and
  \<^verbatim>\<open>JSONDecodeError\<close> only. The pool of the program is a finite set.
\<close>

definition llm_choose_mood ::
  "string \<Rightarrow> string set \<Rightarrow> string \<Rightarrow> string \<Rightarrow> int \<Rightarrow> (request \<Rightarrow> fetch)
     \<Rightarrow> request list \<times> (exn + string)" where
  "llm_choose_mood text existing_moods model api_key max_moods remote =
     (if api_key = [] then ([], Inr [])
      else if existing_moods = {} then ([], Inr [])
      else
        let req = \<lparr>req_model = model, req_api_key = api_key, req_max_moods = max_moods,
                   req_moods = sorted_list_of_set existing_moods,
                   req_snippet = take 2000 text\<rparr>
        in ([req],
            case remote req of
              Fails e \<Rightarrow>
                if e = URLError \<or> e = HTTPError \<or> e = JSONDecodeError then Inr [] else Inl e
            | Payload data \<Rightarrow>
                (case response_text data of
                   Inl e \<Rightarrow> Inl e
                 | Inr raw \<Rightarrow>
                     let raw_text = strip raw
                     in if raw_text = [] then Inr []
                        else Inr (join '';'' (llm_chosen existing_moods max_moods raw_text)))))"

section \<open>The run\<close>

text \<open>
  The command line arguments that the run reads, and its environment: the record store,
  the file of supplementary moods, the result of \<^verbatim>\<open>os.listdir\<close> on the directory of pages
  (the file names with the tokenised content of each file, or the exception that the call
  raises, as it does when the directory does not exist), the credential of the
  environment, and the remote service.
\<close>

record args =
  arg_time :: string
  arg_dry_run :: bool
  arg_force :: bool
  arg_llm_model :: string
  arg_llm_off :: bool

record world =
  csv_file :: "string list list disk_file"
  moods_file :: "string list disk_file"
  entries_dir :: "exn + (string \<times> event list) list"
  env_api_key :: string
  remote :: "request \<Rightarrow> fetch"

definition endswith :: "string \<Rightarrow> string \<Rightarrow> bool" where
  "endswith s suffix =
     (length suffix \<le> length s \<and> drop (length s - length suffix) s = suffix)"

text \<open>
  The body of the loop of \<^verbatim>\<open>main\<close> up to the computation of the key: \<open>Inr None\<close> is a
  \<^verbatim>\<open>continue\<close>, \<open>Inr (Some (key, row))\<close> the key of the entry with the row that
  \<^verbatim>\<open>build_row\<close> makes for it, \<open>Inl e\<close> an exception, which nothing in the loop catches.
\<close>

definition entry_record ::
  "args \<Rightarrow> (request \<Rightarrow> fetch) \<Rightarrow> string set \<Rightarrow> string \<Rightarrow> string \<times> event list
     \<Rightarrow> exn + (dedup_key \<times> string list) option" where
  "entry_record a rem mood_pool api_key entry =
     (if \<not> endswith (fst entry) ''.html'' then Inr None
      else
        case process_html_file (snd entry) of
          Inl e \<Rightarrow> Inl e
        | Inr (date_obj, ttl, body) \<Rightarrow>
            (case date_obj of
               None \<Rightarrow> Inr None
             | Some d \<Rightarrow>
                 if body = [] then Inr None
                 else
                   case format_date_for_csv d (arg_time a) of
                     Inl e \<Rightarrow> Inl e
                   | Inr date_str \<Rightarrow>
                       let notes = (if ttl \<noteq> [] then ttl
                                    else if split_sentences body \<noteq> []
                                         then hd (split_sentences body) else body);
                           reflections = body;
                           takeaways = extract_takeaway body;
                           mood = choose_mood (ttl @ '' '' @ body) mood_pool (arg_llm_off a)
                       in case (if mood = [] \<and> \<not> arg_llm_off a
                                then snd (llm_choose_mood (ttl @ '' '' @ body) mood_pool
                                            (arg_llm_model a) api_key 2 rem)
                                else Inr mood) of
                            Inl e \<Rightarrow> Inl e
                          | Inr mood' \<Rightarrow>
                              Inr (Some ((take 10 date_str, take 40 notes, take 40 reflections),
                                         build_row date_str mood' notes reflections takeaways))))"

text \<open>The loop over the sorted directory listing; \<open>new_rows\<close> is the accumulator.\<close>

fun entries_loop ::
  "args \<Rightarrow> (request \<Rightarrow> fetch) \<Rightarrow> string set \<Rightarrow> string \<Rightarrow> dedup_key set
     \<Rightarrow> (string \<times> event list) list \<Rightarrow> string list list \<Rightarrow> exn + string list list" where
  "entries_loop a rem mood_pool api_key existing_keys [] new_rows = Inr new_rows"
| "entries_loop a rem mood_pool api_key existing_keys (entry # rest) new_rows =
     (case entry_record a rem mood_pool api_key entry of
        Inl e \<Rightarrow> Inl e
      | Inr None \<Rightarrow> entries_loop a rem mood_pool api_key existing_keys rest new_rows
      | Inr (Some (key, row)) \<Rightarrow>
          if \<not> arg_force a \<and> key \<in> existing_keys
          then entries_loop a rem mood_pool api_key existing_keys rest new_rows
          else entries_loop a rem mood_pool api_key existing_keys rest (new_rows @ [row]))"

text \<open>
  How a run ends: with the message that the store has no moods, before the supplementary
  moods and any entry are read; with an exception, which nothing in \<^verbatim>\<open>main\<close> catches;
  with the count of a dry run; with the message that the store is missing; or with the
  new rows appended to the store.
\<close>

datatype outcome =
  NoMoods
| Raised exn
| DryRun "string list list"
| CsvMissing
| Appended "string list list"

definition main :: "args \<Rightarrow> world \<Rightarrow> outcome" where
  "main a w =
     (case load_existing_moods (csv_file w) of
        Inl e \<Rightarrow> Raised e
      | Inr existing_moods \<Rightarrow>
          if existing_moods = {} then NoMoods
          else
            case load_moods_file (moods_file w) of
              Inl e \<Rightarrow> Raised e
            | Inr extra_moods \<Rightarrow>
                (case parse_existing_keys (csv_file w) of
                   Inl e \<Rightarrow> Raised e
                 | Inr existing_keys \<Rightarrow>
                     (case entries_dir w of
                        Inl e \<Rightarrow> Raised e
                      | Inr listing \<Rightarrow>
                          (case entries_loop a (remote w)
                                  (build_mood_pool existing_moods extra_moods)
                                  (strip (env_api_key w)) existing_keys
                                  (sort_key fst listing) [] of
                             Inl e \<Rightarrow> Raised e
                           | Inr new_rows \<Rightarrow>
                               if arg_dry_run a then DryRun new_rows
                               else if csv_file w = Absent then CsvMissing
                               else Appended new_rows))))"

section \<open>Example runs\<close>

text \<open>The defaults of the command line, and the same with the remote classifier off.\<close>

definition default_args :: args where
  "default_args = \<lparr>arg_time = ''12:00 PM'', arg_dry_run = False, arg_force = False,
                    arg_llm_model = ''gpt-4o-mini'', arg_llm_off = False\<rparr>"

definition llm_off_args :: args where
  "llm_off_args = default_args\<lparr>arg_llm_off := True\<rparr>"

text \<open>A network on which every request fails with \<^verbatim>\<open>URLError\<close>.\<close>

definition unreachable :: "request \<Rightarrow> fetch" where
  "unreachable req = Fails URLError"

text \<open>A store with a header row and one record, whose moods are the pool of the scenario.\<close>

definition store_with_moods :: "string list list disk_file" where
  "store_with_moods =
     Content [[''Date'', ''Mood''], [''2024 Sat Mar 2 12:00 PM'', ''Anxious;Motivated'']]"

text \<open>A page with a page header and one paragraph.\<close>

definition page_of :: "string \<Rightarrow> string \<Rightarrow> event list" where
  "page_of header body =
     [StartTag ''body'' [],
      StartTag ''div'' [(''class'', Some ''pageHeader'')], Data header, EndTag ''div'',
      StartTag ''p'' [], Data body, EndTag ''p'',
      EndTag ''body'']"

text \<open>The scenario of the specification: one page, no credential.\<close>

definition scenario_world :: world where
  "scenario_world =
     \<lparr>csv_file = store_with_moods,
      moods_file = Absent,
      entries_dir =
        Inr [(''a.html'',
              page_of (''quinta-feira, 3 de mar'' @ [CHR 0xE7] @ ''o de 2024'')
                ''Estou muito ansioso hoje. Quero melhorar minha rotina.'')],
      env_api_key = [],
      remote = unreachable\<rparr>"

text \<open>Two files with the same page.\<close>

definition duplicate_world :: world where
  "duplicate_world =
     \<lparr>csv_file = store_with_moods,
      moods_file = Absent,
      entries_dir = Inr [(''a.html'', page_of ''3 de maio de 2024'' ''Dia calmo.''),
                         (''b.html'', page_of ''3 de maio de 2024'' ''Dia calmo.'')],
      env_api_key = [],
      remote = unreachable\<rparr>"

text \<open>A store with no record, and a file of supplementary moods with one label.\<close>

definition supplementary_only_world :: world where
  "supplementary_only_world =
     \<lparr>csv_file = Content [[''Date'', ''Mood'']],
      moods_file = Content [''Calm'' @ [CHR 0x0A]],
      entries_dir = Inr [(''a.html'', page_of ''3 de maio de 2024'' ''Dia calmo.'')],
      env_api_key = [],
      remote = unreachable\<rparr>"

text \<open>A page whose header names the 31st of April, followed by a page with a valid date.\<close>

definition invalid_date_world :: world where
  "invalid_date_world =
     \<lparr>csv_file = store_with_moods,
      moods_file = Absent,
      entries_dir = Inr [(''a.html'', page_of ''31 de abril de 2024'' ''Dia calmo.''),
                         (''b.html'', page_of ''3 de maio de 2024'' ''Dia calmo.'')],
      env_api_key = [],
      remote = unreachable\<rparr>"

text \<open>
  A store that has the record of the page of the third of May, and a directory with that
  page and two files with the same page of the fourth of May.
\<close>

definition store_with_record :: "string list list disk_file" where
  "store_with_record =
     Content [[''Date'', ''Mood''],
              build_row ''2024 Fri May 3 12:00 PM'' ''Anxious;Motivated''
                ''Dia calmo.'' ''Dia calmo.'' []]"

definition mixed_listing :: "(string \<times> event list) list" where
  "mixed_listing = [(''c.html'', page_of ''4 de maio de 2024'' ''Dia bom.''),
                    (''a.html'', page_of ''3 de maio de 2024'' ''Dia calmo.''),
                    (''b.html'', page_of ''4 de maio de 2024'' ''Dia bom.'')]"

definition mixed_world :: world where
  "mixed_world =
     \<lparr>csv_file = store_with_record,
      moods_file = Absent,
      entries_dir = Inr mixed_listing,
      env_api_key = [],
      remote = unreachable\<rparr>"

text \<open>A store with moods and a directory of pages that does not exist.\<close>

definition missing_directory_world :: world where
  "missing_directory_world =
     \<lparr>csv_file = store_with_moods,
      moods_file = Absent,
      entries_dir = Inl OSError,
      env_api_key = [],
      remote = unreachable\<rparr>"

text \<open>A page whose page header container encloses a nested container.\<close>

definition nested_header_page :: "event list" where
  "nested_header_page =
     [StartTag ''body'' [],
      StartTag ''div'' [(''class'', Some ''pageHeader'')],
      StartTag ''div'' [], Data ''quinta-feira'', EndTag ''div'',
      Data '', 3 de maio de 2024'',
      EndTag ''div'',
      StartTag ''p'' [], Data ''Dia calmo.'', EndTag ''p'',
      EndTag ''body'']"

text \<open>An answer of the service with the text \<^verbatim>\<open>calm; anxious; Calm\<close>.\<close>

definition answer_calm :: "request \<Rightarrow> fetch" where
  "answer_calm req =
     Payload (JObj [(''output'',
       JArr [JObj [(''type'', JStr ''message''),
                   (''content'',
                    JArr [JObj [(''type'', JStr ''output_text''),
                                (''text'', JStr ''calm; anxious; Calm'')]])]])])"

section \<open>Properties of the record builder\<close>

text \<open>
  Claim C4, as the code has it: every row of \<^verbatim>\<open>build_row\<close> has exactly 18 ordered fields,
  the date string, the mood field, 13 blank fields, then the notes, the reflections and
  the takeaway; counted from 0, the notes are at position 15, the reflections at position
  16 and the takeaway at position 17.
\<close>

theorem build_row_layout:
  "build_row d m n r t = [d, m] @ replicate 13 [] @ [n, r, t] \<and>
   length (build_row d m n r t) = 18 \<and>
   build_row d m n r t ! 0 = d \<and> build_row d m n r t ! 1 = m \<and>
   build_row d m n r t ! 15 = n \<and> build_row d m n r t ! 16 = r \<and>
   build_row d m n r t ! 17 = t"
  by (simp add: build_row_def numeral_eq_Suc)

text \<open>The claim C4 as stated asks for 17 fields: a row does not have 17 fields.\<close>

theorem build_row_not_17_fields:
  "length (build_row ''2024 Sun Mar 3 12:00 PM'' ''Calm'' ''n'' ''r'' ''t'') \<noteq> 17"
  by (simp add: build_row_def)

section \<open>Properties of the classifiers\<close>

lemma pick_first_cases:
  "pick_first pool chosen prefs = chosen \<or>
   (\<exists>m. m \<in> set prefs \<and> m \<in> pool \<and> m \<notin> set chosen \<and>
        pick_first pool chosen prefs = chosen @ [m])"
  by (induction prefs) auto

lemma pick_first_inv:
  assumes "distinct chosen" "set chosen \<subseteq> pool"
  shows "distinct (pick_first pool chosen prefs) \<and>
         set (pick_first pool chosen prefs) \<subseteq> pool \<and>
         length (pick_first pool chosen prefs) \<le> Suc (length chosen)"
  using pick_first_cases[of pool chosen prefs] assms by auto

lemma pick_moods_inv:
  assumes "distinct chosen" "set chosen \<subseteq> pool" "length chosen < 2"
  shows "distinct (pick_moods pool chosen rules) \<and>
         set (pick_moods pool chosen rules) \<subseteq> pool \<and>
         length (pick_moods pool chosen rules) \<le> 2"
  using assms
proof (induction rules arbitrary: chosen)
  case Nil
  then show ?case by simp
next
  case (Cons prefs rest)
  let ?c = "pick_first pool chosen prefs"
  from pick_first_inv[OF Cons.prems(1,2), of prefs] Cons.prems(3)
  have inv: "distinct ?c" "set ?c \<subseteq> pool" "length ?c \<le> 2" by auto
  show ?case
  proof (cases "2 \<le> length ?c")
    case True
    with inv show ?thesis by (simp add: Let_def)
  next
    case False
    then have "length ?c < 2" by simp
    from Cons.IH[OF inv(1,2) this] False show ?thesis by (simp add: Let_def)
  qed
qed

lemma pick_fallback_inv:
  "distinct (pick_fallback pool fs) \<and> set (pick_fallback pool fs) \<subseteq> pool \<and>
   length (pick_fallback pool fs) \<le> 1"
  by (induction fs) auto

lemma choose_mood_chosen_inv:
  "distinct (choose_mood_chosen text pool fb) \<and>
   set (choose_mood_chosen text pool fb) \<subseteq> pool \<and>
   length (choose_mood_chosen text pool fb) \<le> 2"
proof -
  have a: "distinct (pick_moods pool [] rs) \<and> set (pick_moods pool [] rs) \<subseteq> pool \<and>
           length (pick_moods pool [] rs) \<le> 2" for rs
    using pick_moods_inv[of "[]" pool rs] by simp
  have b: "distinct (pick_fallback pool fs) \<and> set (pick_fallback pool fs) \<subseteq> pool \<and>
           length (pick_fallback pool fs) \<le> 2" for fs
    using pick_fallback_inv[of pool fs] by auto
  show ?thesis
    unfolding choose_mood_chosen_def Let_def using a b by presburger
qed

lemma set_sorted_list_of_set_subset: "set (sorted_list_of_set A) \<subseteq> A"
  by (cases "finite A") auto

lemma lower_map_ran: "lower_map ms k = Some m \<Longrightarrow> m \<in> set ms"
  unfolding lower_map_def by (auto dest!: map_of_SomeD)

lemma llm_pick_inv:
  assumes "distinct chosen" "set chosen \<subseteq> set ms"
  shows "distinct (llm_pick (lower_map ms) mx chosen parts) \<and>
         set (llm_pick (lower_map ms) mx chosen parts) \<subseteq> set ms"
  using assms
proof (induction parts arbitrary: chosen)
  case Nil
  then show ?case by simp
next
  case (Cons part parts)
  show ?case
  proof (cases "lower_map ms (lower (strip part))")
    case None
    with Cons show ?thesis by (simp add: Let_def)
  next
    case (Some m)
    then have m: "m \<in> set ms" by (rule lower_map_ran)
    have ext: "distinct (chosen @ [m]) \<and> set (chosen @ [m]) \<subseteq> set ms" if "m \<notin> set chosen"
      using that m Cons.prems by simp
    show ?thesis
      using Some Cons.IH[of chosen] Cons.IH[of "chosen @ [m]"] Cons.prems ext
      by (simp add: Let_def)
  qed
qed

lemma llm_pick_length:
  assumes "int (length chosen) < mx"
  shows "int (length (llm_pick mp mx chosen parts)) \<le> mx"
  using assms
proof (induction parts arbitrary: chosen)
  case Nil
  then show ?case by simp
next
  case (Cons part parts)
  show ?case
  proof (cases "mp (lower (strip part))")
    case None
    with Cons show ?thesis by (simp add: Let_def)
  next
    case (Some m)
    show ?thesis
      using Some Cons.IH[of chosen] Cons.IH[of "chosen @ [m]"] Cons.prems
      by (simp add: Let_def)
  qed
qed

lemma llm_chosen_inv:
  "distinct (llm_chosen pool 2 raw) \<and> set (llm_chosen pool 2 raw) \<subseteq> pool \<and>
   length (llm_chosen pool 2 raw) \<le> 2"
proof -
  have "distinct (llm_chosen pool 2 raw) \<and>
        set (llm_chosen pool 2 raw) \<subseteq> set (sorted_list_of_set pool)"
    unfolding llm_chosen_def by (rule llm_pick_inv) simp_all
  moreover have "int (length (llm_chosen pool 2 raw)) \<le> 2"
    unfolding llm_chosen_def by (rule llm_pick_length) simp
  ultimately show ?thesis
    using set_sorted_list_of_set_subset[of pool] by auto
qed

lemma llm_choose_mood_cases:
  "snd (llm_choose_mood text pool model api_key mx rem) = Inr r \<Longrightarrow>
     r = [] \<or> (\<exists>raw. r = join '';'' (llm_chosen pool mx raw))"
  by (auto simp: llm_choose_mood_def Let_def split: if_splits fetch.splits sum.splits)

text \<open>
  Claim C10: with an empty credential, or with an empty mood pool, \<^verbatim>\<open>llm_choose_mood\<close>
  returns the empty string and issues no request, whatever the text, the model, the cap
  and the behaviour of the network are.
\<close>

theorem llm_choose_mood_no_request:
  "llm_choose_mood text existing_moods model [] max_moods rem = ([], Inr []) \<and>
   llm_choose_mood text {} model api_key max_moods rem = ([], Inr [])"
  by (simp add: llm_choose_mood_def)

lemma split_char_no_sep: "c \<notin> set l \<Longrightarrow> split_char c l = [l]"
  by (induction l) auto

lemma split_char_sep: "c \<notin> set l \<Longrightarrow> split_char c (l @ c # rest) = l # split_char c rest"
  by (induction l) auto

lemma split_char_join:
  assumes "ls \<noteq> []" "\<forall>l \<in> set ls. c \<notin> set l"
  shows "split_char c (join [c] ls) = ls"
  using assms
proof (induction "[c]" ls rule: join.induct)
  case 1
  then show ?case by simp
next
  case (2 p)
  then show ?case by (simp add: split_char_no_sep)
next
  case (3 p q ps)
  then show ?case by (simp add: split_char_sep)
qed

lemma split_char_parts: "p \<in> set (split_char c s) \<Longrightarrow> c \<notin> set p"
proof (induction s arbitrary: p)
  case Nil
  then show ?case by simp
next
  case (Cons a s)
  then show ?case
    by (cases "split_char c s") (auto split: if_splits)
qed

lemma set_strip: "set (strip s) \<subseteq> set s"
  unfolding strip_def by (auto dest!: set_dropWhileD)

lemma lower_char_semicolon: "(lower_char c = CHR '';'') = (c = CHR '';'')"
proof
  assume a: "lower_char c = CHR '';''"
  show "c = CHR '';''"
  proof (rule ccontr)
    assume n: "c \<noteq> CHR '';''"
    with a have u: "(65 \<le> (of_char c :: int) \<and> (of_char c :: int) \<le> 90) \<or>
          (192 \<le> (of_char c :: int) \<and> (of_char c :: int) \<le> 222 \<and> (of_char c :: int) \<noteq> 215)"
      and e: "char_of ((of_char c :: int) + 32) = CHR '';''"
      by (auto simp: lower_char_def Let_def split: if_splits)
    from e have "(of_char (char_of ((of_char c :: int) + 32)) :: int) = of_char CHR '';''"
      by simp
    then have "((of_char c :: int) + 32) mod 256 = 59" by simp
    with u show False by presburger
  qed
next
  assume "c = CHR '';''"
  then show "lower_char c = CHR '';''" by (simp add: lower_char_def)
qed

lemma lower_char_semicolon2: "(CHR '';'' = lower_char c) = (c = CHR '';'')"
  by (subst eq_commute) (rule lower_char_semicolon)

lemma lower_semicolon: "(CHR '';'' \<in> set (lower m)) = (CHR '';'' \<in> set m)"
proof -
  have "(CHR '';'' \<in> set (lower m)) = (CHR '';'' \<in> lower_char ` set m)"
    by (simp only: lower_def set_map)
  also have "\<dots> = (\<exists>c \<in> set m. CHR '';'' = lower_char c)"
    by (rule image_iff)
  also have "\<dots> = (\<exists>c \<in> set m. c = CHR '';'')"
    by (simp only: lower_char_semicolon2)
  also have "\<dots> = (CHR '';'' \<in> set m)"
    by (rule bex_triv_one_point1)
  finally show ?thesis .
qed

lemma lower_map_key: "lower_map ms k = Some m \<Longrightarrow> k = lower m"
  unfolding lower_map_def by (auto dest!: map_of_SomeD)

lemma llm_pick_step:
  "llm_pick mp mx chosen (part # parts) =
     (if strip part = [] then llm_pick mp mx chosen parts
      else case mp (lower (strip part)) of
             None \<Rightarrow> (if mx \<le> int (length chosen) then chosen
                       else llm_pick mp mx chosen parts)
           | Some m \<Rightarrow>
               if m \<noteq> [] \<and> m \<notin> set chosen
               then (if mx \<le> int (length (chosen @ [m])) then chosen @ [m]
                     else llm_pick mp mx (chosen @ [m]) parts)
               else (if mx \<le> int (length chosen) then chosen
                     else llm_pick mp mx chosen parts))"
  by (simp add: Let_def split: option.split)

lemma llm_pick_clean:
  assumes "list_all (\<lambda>l. CHR '';'' \<notin> set l \<and> l \<noteq> []) chosen" "list_all (\<lambda>p. CHR '';'' \<notin> set p) parts"
  shows "list_all (\<lambda>l. CHR '';'' \<notin> set l \<and> l \<noteq> []) (llm_pick (lower_map ms) mx chosen parts)"
  using assms
proof (induction parts arbitrary: chosen)
  case Nil
  then show ?case by simp
next
  case (Cons part parts)
  from Cons.prems(2) have rest: "list_all (\<lambda>p. CHR '';'' \<notin> set p) parts"
    and part: "CHR '';'' \<notin> set part" by simp_all
  from part set_strip[of part] have nosemi: "CHR '';'' \<notin> set (strip part)" by blast
  note ih = Cons.IH[OF _ rest]
  show ?case
  proof (cases "lower_map ms (lower (strip part))")
    case None
    show ?thesis
      unfolding llm_pick_step None using ih[OF Cons.prems(1)] Cons.prems(1)
      by (simp only: option.case if_split) blast
  next
    case (Some m)
    from lower_map_key[OF Some] have "lower (strip part) = lower m" .
    with nosemi lower_semicolon[of m] lower_semicolon[of "strip part"]
    have m: "CHR '';'' \<notin> set m" by metis
    show ?thesis
    proof (cases "m \<noteq> [] \<and> m \<notin> set chosen")
      case True
      with m Cons.prems(1) have ext: "list_all (\<lambda>l. CHR '';'' \<notin> set l \<and> l \<noteq> []) (chosen @ [m])" by simp
      show ?thesis
        unfolding llm_pick_step Some
        using True ih[OF ext] ext ih[OF Cons.prems(1)] Cons.prems(1)
        by (simp only: option.case if_split) blast
    next
      case False
      show ?thesis
        unfolding llm_pick_step Some using False ih[OF Cons.prems(1)] Cons.prems(1)
        by (simp only: option.case if_split) blast
    qed
  qed
qed


lemma llm_chosen_clean: "list_all (\<lambda>l. CHR '';'' \<notin> set l \<and> l \<noteq> []) (llm_chosen pool mx raw)"
proof -
  have "list_all (\<lambda>p. CHR '';'' \<notin> set p) (split_char CHR '';'' raw)"
    unfolding list_all_iff using split_char_parts by blast
  then show ?thesis
    unfolding llm_chosen_def by (intro llm_pick_clean) simp_all
qed

lemma pick_first_subset: "set (pick_first pool chosen prefs) \<subseteq> set chosen \<union> set prefs"
  using pick_first_cases[of pool chosen prefs] by auto

lemma pick_moods_subset:
  "set (pick_moods pool chosen rules) \<subseteq> set chosen \<union> set (concat rules)"
proof (induction rules arbitrary: chosen)
  case Nil
  then show ?case by simp
next
  case (Cons prefs rest)
  have a: "set (pick_first pool chosen prefs) \<subseteq> set chosen \<union> set (concat (prefs # rest))"
    using pick_first_subset[of pool chosen prefs] by auto
  have b: "set (pick_moods pool (pick_first pool chosen prefs) rest) \<subseteq>
           set chosen \<union> set (concat (prefs # rest))"
    using Cons[of "pick_first pool chosen prefs"] pick_first_subset[of pool chosen prefs]
    by auto
  show ?case
    using a b
    by (cases "2 \<le> length (pick_first pool chosen prefs)") (simp_all add: Let_def)
qed

lemma pick_fallback_subset: "set (pick_fallback pool fs) \<subseteq> set fs"
  by (induction fs) auto

lemma fixed_labels_clean:
  "list_all (\<lambda>l. CHR '';'' \<notin> set l \<and> l \<noteq> []) (concat (map snd mood_rules) @ fallback_moods)"
  by (simp add: mood_rules_def fallback_moods_def anxiety_rule_def
       crisis_rule_def exhaustion_rule_def trapped_rule_def frustration_rule_def
       motivation_rule_def gratitude_rule_def)

lemma choose_mood_chosen_labels:
  "set (choose_mood_chosen text pool fb) \<subseteq> set (concat (map snd mood_rules) @ fallback_moods)"
proof -
  have c: "set (concat (mood_preferences (lower text))) \<subseteq> set (concat (map snd mood_rules))"
    unfolding mood_preferences_def by auto
  have "set (pick_moods pool [] (mood_preferences (lower text))) \<subseteq>
        set (concat (mood_preferences (lower text)))"
    using pick_moods_subset[of pool "[]" "mood_preferences (lower text)"] by simp
  also note c
  also have "set (concat (map snd mood_rules)) \<subseteq>
      set (concat (map snd mood_rules) @ fallback_moods)"
    by simp
  finally have a: "set (pick_moods pool [] (mood_preferences (lower text))) \<subseteq>
      set (concat (map snd mood_rules) @ fallback_moods)" .
  have "set (pick_fallback pool fallback_moods) \<subseteq> set fallback_moods"
    by (rule pick_fallback_subset)
  also have "set fallback_moods \<subseteq> set (concat (map snd mood_rules) @ fallback_moods)"
    by simp
  finally have b: "set (pick_fallback pool fallback_moods) \<subseteq>
      set (concat (map snd mood_rules) @ fallback_moods)" .
  show ?thesis
    unfolding choose_mood_chosen_def Let_def using a b by simp
qed

lemma split_choose_mood:
  "split_char CHR '';'' (choose_mood text pool fb) =
     (if choose_mood_chosen text pool fb = [] then [[]] else choose_mood_chosen text pool fb)"
proof (cases "choose_mood_chosen text pool fb = []")
  case True
  then show ?thesis by (simp add: choose_mood_def)
next
  case False
  have "\<forall>l \<in> set (choose_mood_chosen text pool fb). CHR '';'' \<notin> set l"
    using choose_mood_chosen_labels[of _ pool fb] fixed_labels_clean
    unfolding list_all_iff by blast
  from split_char_join[OF False this] False show ?thesis
    by (simp add: choose_mood_def)
qed

lemma split_llm_chosen:
  "llm_chosen pool mx raw \<noteq> [] \<Longrightarrow>
   split_char CHR '';'' (join '';'' (llm_chosen pool mx raw)) = llm_chosen pool mx raw"
proof -
  assume ne: "llm_chosen pool mx raw \<noteq> []"
  have "\<forall>l \<in> set (llm_chosen pool mx raw). CHR '';'' \<notin> set l"
    using llm_chosen_clean[of pool mx raw] unfolding list_all_iff by blast
  from split_char_join[OF ne this] show ?thesis by simp
qed

lemma join_empty: "join sep [] = []"
  by simp

text \<open>
  Claim C9: the labels chosen by the heuristic classifier are at most 2, are distinct and
  belong to the mood pool; the returned string is these labels joined by \<^verbatim>\<open>;\<close>, and
  splitting it at \<^verbatim>\<open>;\<close> gives the labels back (one empty part when no label is chosen).
  Whenever the remote classifier with the cap 2 returns a string, the string is empty or
  its parts between \<^verbatim>\<open>;\<close> are at most 2, are distinct and belong to the mood pool.
\<close>

theorem classification_result_invariant:
  "length (choose_mood_chosen text pool fb) \<le> 2 \<and>
   distinct (choose_mood_chosen text pool fb) \<and>
   set (choose_mood_chosen text pool fb) \<subseteq> pool \<and>
   choose_mood text pool fb = join '';'' (choose_mood_chosen text pool fb) \<and>
   split_char CHR '';'' (choose_mood text pool fb) =
     (if choose_mood_chosen text pool fb = [] then [[]] else choose_mood_chosen text pool fb) \<and>
   (case snd (llm_choose_mood text pool model api_key 2 rem) of
      Inl e \<Rightarrow> True
    | Inr r \<Rightarrow>
        r = [] \<or>
        (length (split_char CHR '';'' r) \<le> 2 \<and> distinct (split_char CHR '';'' r) \<and>
         set (split_char CHR '';'' r) \<subseteq> pool))"
proof -
  have "r = [] \<or>
        (length (split_char CHR '';'' r) \<le> 2 \<and> distinct (split_char CHR '';'' r) \<and>
         set (split_char CHR '';'' r) \<subseteq> pool)"
    if "snd (llm_choose_mood text pool model api_key 2 rem) = Inr r" for r
  proof -
    from llm_choose_mood_cases[OF that]
    consider "r = []" | raw where "r = join '';'' (llm_chosen pool 2 raw)"
      by blast
    then show ?thesis
    proof cases
      case 1
      then show ?thesis by simp
    next
      case 2
      show ?thesis
      proof (cases "llm_chosen pool 2 raw = []")
        case True
        with 2 show ?thesis by simp
      next
        case False
        from split_llm_chosen[OF False] 2
        have "split_char CHR '';'' r = llm_chosen pool 2 raw" by simp
        with llm_chosen_inv[of pool raw] show ?thesis by simp
      qed
    qed
  qed
  then have remote: "case snd (llm_choose_mood text pool model api_key 2 rem) of
      Inl e \<Rightarrow> True
    | Inr r \<Rightarrow>
        r = [] \<or>
        (length (split_char CHR '';'' r) \<le> 2 \<and> distinct (split_char CHR '';'' r) \<and>
         set (split_char CHR '';'' r) \<subseteq> pool)"
    by (simp split: sum.split)
  show ?thesis
    using choose_mood_chosen_inv[of _ pool fb] split_choose_mood[of _ pool fb] remote
    by (simp add: choose_mood_def)
qed

text \<open>The remote classifier does return such a string: a run of it on an answer.\<close>

theorem classification_result_witness:
  "snd (llm_choose_mood ''Dia calmo.'' {''Calm'', ''Anxious''} ''gpt-4o-mini'' ''sk-test'' 2
          answer_calm) = Inr ''Calm;Anxious'' \<and>
   length (split_char CHR '';'' ''Calm;Anxious'') \<le> 2 \<and>
   distinct (split_char CHR '';'' ''Calm;Anxious'') \<and>
   set (split_char CHR '';'' ''Calm;Anxious'') \<subseteq> {''Calm'', ''Anxious''}"
proof -
  have e: "snd (llm_choose_mood ''Dia calmo.'' {''Calm'', ''Anxious''} ''gpt-4o-mini''
                  ''sk-test'' 2 answer_calm) = Inr ''Calm;Anxious''"
    by code_simp
  have n: "''Calm;Anxious'' \<noteq> []" by simp
  from classification_result_invariant[of "''Dia calmo.''" "{''Calm'', ''Anxious''}" True
         "''gpt-4o-mini''" "''sk-test''" answer_calm] e n
  show ?thesis by (simp only: sum.case snd_conv) blast
qed

lemma prefs_shape:
  assumes "search_words (fst crisis_rule) t" "search_words (fst gratitude_rule) t"
  shows "mood_preferences t =
     (if search_words (fst anxiety_rule) t then [snd anxiety_rule] else []) @
     snd crisis_rule #
     map snd (filter (\<lambda>r. search_words (fst r) t)
                [exhaustion_rule, trapped_rule, frustration_rule, motivation_rule]) @
     [snd gratitude_rule]"
  using assms unfolding mood_preferences_def mood_rules_def by simp

lemma pick_moods_second:
  assumes "g \<in> pool" "g \<noteq> d"
  shows "\<exists>x. pick_moods pool [d] (mid @ [g # gs]) = [d, x]"
proof (induction mid)
  case Nil
  from assms show ?case by (simp add: Let_def)
next
  case (Cons c mid)
  from pick_first_cases[of pool "[d]" c] Cons show ?case
    by (auto simp: Let_def)
qed

text \<open>
  Claim C8, as the code has it: when the text matches the pattern of the crisis category
  and the pattern of the gratitude category, and the pool has the first candidate of both
  (\<^verbatim>\<open>Depressed\<close> and \<^verbatim>\<open>Grateful\<close>), the result has two labels and \<^verbatim>\<open>Depressed\<close> is one of
  them; \<^verbatim>\<open>Grateful\<close> is in the result exactly when the result is \<^verbatim>\<open>Depressed\<close> followed by
  \<^verbatim>\<open>Grateful\<close>, so it never stands before \<^verbatim>\<open>Depressed\<close>, and it is left out when a category
  of higher priority fills the other place.
\<close>

theorem crisis_before_gratitude:
  assumes "search_words (fst crisis_rule) (lower text)"
      and "search_words (fst gratitude_rule) (lower text)"
      and "''Depressed'' \<in> pool" and "''Grateful'' \<in> pool"
  shows "length (choose_mood_chosen text pool fb) = 2 \<and>
         ''Depressed'' \<in> set (choose_mood_chosen text pool fb) \<and>
         (''Grateful'' \<in> set (choose_mood_chosen text pool fb)) =
           (choose_mood_chosen text pool fb = [''Depressed'', ''Grateful''])"
proof -
  define mid where "mid = map snd (filter (\<lambda>r. search_words (fst r) (lower text))
                [exhaustion_rule, trapped_rule, frustration_rule, motivation_rule])"
  define ls where "ls = pick_moods pool [] (mood_preferences (lower text))"
  have shape: "mood_preferences (lower text) =
      (if search_words (fst anxiety_rule) (lower text) then [snd anxiety_rule] else []) @
      snd crisis_rule # mid @ [snd gratitude_rule]"
    unfolding mid_def by (rule prefs_shape[OF assms(1,2)])
  have crisis: "snd crisis_rule = ''Depressed'' # [''Hopeless'', ''Miserable'', ''Down'']"
    by (simp add: crisis_rule_def)
  have grat: "snd gratitude_rule =
      ''Grateful'' # [''Hopeful'', ''Optimistic'', ''Good'', ''Content'']"
    by (simp add: gratitude_rule_def)
  from pick_moods_second[of "''Grateful''" pool "''Depressed''" mid] assms(4)
  obtain x where
    x: "pick_moods pool [''Depressed''] (mid @ [snd gratitude_rule]) = [''Depressed'', x]"
    unfolding grat by auto
  have tail: "pick_moods pool [] (snd crisis_rule # mid @ [snd gratitude_rule]) =
      [''Depressed'', x]"
    using assms(3) x by (simp add: crisis Let_def)
  have "ls = [''Depressed'', x] \<or>
        (\<exists>a \<in> {''Anxious'', ''Concerned'', ''Uneasy''}. ls = [a, ''Depressed''])"
  proof (cases "search_words (fst anxiety_rule) (lower text)")
    case False
    with shape tail show ?thesis by (simp add: ls_def)
  next
    case True
    from pick_first_cases[of pool "[]" "snd anxiety_rule"]
    consider "pick_first pool [] (snd anxiety_rule) = []"
      | a where "a \<in> {''Anxious'', ''Concerned'', ''Uneasy''}"
                "pick_first pool [] (snd anxiety_rule) = [a]"
      by (auto simp: anxiety_rule_def)
    then show ?thesis
    proof cases
      case 1
      with True shape tail show ?thesis by (simp add: ls_def Let_def)
    next
      case 2
      from 2(1) have "''Depressed'' \<noteq> a" by auto
      with True shape 2 assms(3) show ?thesis
        by (simp add: ls_def Let_def crisis)
    qed
  qed
  then have "length ls = 2 \<and> ''Depressed'' \<in> set ls \<and>
     (''Grateful'' \<in> set ls) = (ls = [''Depressed'', ''Grateful''])"
    by auto
  moreover have "choose_mood_chosen text pool fb = ls"
    using calculation by (auto simp: choose_mood_chosen_def ls_def Let_def)
  ultimately show ?thesis by simp
qed

text \<open>A text and a pool that meet the hypotheses, with the result of the classifier.\<close>

theorem crisis_before_gratitude_witness:
  "length (choose_mood_chosen ''Quero morrer, mas estou feliz.''
             {''Depressed'', ''Grateful''} False) = 2 \<and>
   ''Depressed'' \<in> set (choose_mood_chosen ''Quero morrer, mas estou feliz.''
                           {''Depressed'', ''Grateful''} False) \<and>
   choose_mood_chosen ''Quero morrer, mas estou feliz.''
     {''Depressed'', ''Grateful''} False = [''Depressed'', ''Grateful'']"
proof -
  have 1: "search_words (fst crisis_rule) (lower ''Quero morrer, mas estou feliz.'')"
    by code_simp
  have 2: "search_words (fst gratitude_rule) (lower ''Quero morrer, mas estou feliz.'')"
    by code_simp
  have 3: "''Depressed'' \<in> {''Depressed'', ''Grateful''}" by simp
  have 4: "''Grateful'' \<in> {''Depressed'', ''Grateful''}" by simp
  have 5: "''Grateful'' \<in> set (choose_mood_chosen ''Quero morrer, mas estou feliz.''
                                  {''Depressed'', ''Grateful''} False)"
    by code_simp
  from crisis_before_gratitude[OF 1 2 3 4, of False] 5 show ?thesis by simp
qed

text \<open>
  The claim C8 as stated fails on a text that matches the anxiety category too: both
  patterns match and both first candidates are in the pool, and the result does not list
  the gratitude label at all.
\<close>

theorem crisis_before_gratitude_counterexample:
  "search_words (fst crisis_rule)
     (lower ''Tenho ansiedade, quero morrer, mas estou feliz.'') \<and>
   search_words (fst gratitude_rule)
     (lower ''Tenho ansiedade, quero morrer, mas estou feliz.'') \<and>
   ''Depressed'' \<in> {''Anxious'', ''Depressed'', ''Grateful''} \<and>
   ''Grateful'' \<in> {''Anxious'', ''Depressed'', ''Grateful''} \<and>
   choose_mood_chosen ''Tenho ansiedade, quero morrer, mas estou feliz.''
     {''Anxious'', ''Depressed'', ''Grateful''} True = [''Anxious'', ''Depressed''] \<and>
   choose_mood ''Tenho ansiedade, quero morrer, mas estou feliz.''
     {''Anxious'', ''Depressed'', ''Grateful''} True = ''Anxious;Depressed''"
  by code_simp

text \<open>
  Claim C6, where the code departs from it: an answer that decodes to a JSON list, an
  answer whose \<^verbatim>\<open>output\<close> is \<^verbatim>\<open>null\<close>, a timeout while the answer is read and an answer
  that is not UTF-8 all leave \<^verbatim>\<open>llm_choose_mood\<close> as an exception, not as the empty string.
\<close>

theorem llm_choose_mood_raises:
  "snd (llm_choose_mood ''Dia calmo.'' {''Calm''} ''gpt-4o-mini'' ''sk-test'' 2
          (\<lambda>req. Payload (JArr []))) = Inl AttributeError \<and>
   snd (llm_choose_mood ''Dia calmo.'' {''Calm''} ''gpt-4o-mini'' ''sk-test'' 2
          (\<lambda>req. Payload (JObj [(''output'', JNull)]))) = Inl TypeError \<and>
   snd (llm_choose_mood ''Dia calmo.'' {''Calm''} ''gpt-4o-mini'' ''sk-test'' 2
          (\<lambda>req. Fails TimeoutError)) = Inl TimeoutError \<and>
   snd (llm_choose_mood ''Dia calmo.'' {''Calm''} ''gpt-4o-mini'' ''sk-test'' 2
          (\<lambda>req. Fails UnicodeDecodeError)) = Inl UnicodeDecodeError"
  by (simp add: llm_choose_mood_def response_text_def dict_get_def iterate_def)

text \<open>
  Claim C1, where the code departs from it: on the page of the scenario, with the pool
  \<^verbatim>\<open>Anxious\<close>, \<^verbatim>\<open>Motivated\<close>, the heuristic classifier returns the empty string, and the run
  (remote classifier off, or on without a credential) writes a record with an empty mood;
  the takeaway is the one of the scenario.
\<close>

theorem scenario_mood_is_empty:
  "choose_mood ([] @ '' '' @ ''Estou muito ansioso hoje. Quero melhorar minha rotina.'')
     {''Anxious'', ''Motivated''} True = [] \<and>
   extract_takeaway ''Estou muito ansioso hoje. Quero melhorar minha rotina.'' =
     ''Quero melhorar minha rotina.'' \<and>
   main llm_off_args scenario_world =
     Appended [[''2024 Sun Mar 3 12:00 PM'', [], [], [], [], [], [], [], [], [], [], [],
       [], [], [], ''Estou muito ansioso hoje.'',
       ''Estou muito ansioso hoje. Quero melhorar minha rotina.'',
       ''Quero melhorar minha rotina.'']] \<and>
   main default_args scenario_world = main llm_off_args scenario_world"
  by code_simp

section \<open>Properties of the markup parser\<close>

lemma starttag_div_fields:
  assumes "in_body p"
  shows "in_body (handle_starttag p ''div'' attrs) \<and>
         (in_page_header p \<longrightarrow> in_page_header (handle_starttag p ''div'' attrs)) \<and>
         page_header (handle_starttag p ''div'' attrs) = page_header p \<and>
         text_parts (handle_starttag p ''div'' attrs) = text_parts p \<and>
         title (handle_starttag p ''div'' attrs) = title p"
  using assms by (simp add: handle_starttag_def Let_def)

lemma starttag_header_fields:
  assumes "in_body p"
  shows "in_page_header (handle_starttag p ''div'' [(''class'', Some ''pageHeader'')])"
  using assms by (simp add: handle_starttag_def Let_def attr_class_def)

lemma data_in_header_fields:
  assumes "in_body p" "in_page_header p"
  shows "in_body (handle_data p a) \<and> in_page_header (handle_data p a) \<and>
         page_header (handle_data p a) = page_header p @ a \<and>
         text_parts (handle_data p a) = text_parts p \<and>
         title (handle_data p a) = title p"
  using assms by (simp add: handle_data_def)

lemma data_in_body_fields:
  assumes "in_body p" "\<not> in_page_header p" "\<not> in_title p"
  shows "in_body (handle_data p b) \<and>
         page_header (handle_data p b) = page_header p \<and>
         text_parts (handle_data p b) = text_parts p @ [b] \<and>
         title (handle_data p b) = title p"
  using assms by (simp add: handle_data_def)

lemma endtag_div_fields:
  "in_body (handle_endtag p ''div'') = in_body p \<and>
   \<not> in_page_header (handle_endtag p ''div'') \<and>
   \<not> in_title (handle_endtag p ''div'') \<and>
   page_header (handle_endtag p ''div'') = page_header p \<and>
   text_parts (handle_endtag p ''div'') = text_parts p \<and>
   title (handle_endtag p ''div'') = title p"
  by (simp add: handle_endtag_def Let_def)

lemma endtag_other_fields:
  "tag \<noteq> ''div'' \<Longrightarrow>
   in_page_header (handle_endtag p tag) = in_page_header p \<and>
   in_title (handle_endtag p tag) = in_title p"
  by (simp add: handle_endtag_def Let_def)

lemma nested_div_feed:
  assumes "in_body p"
  shows "page_header (feed p [StartTag ''div'' [(''class'', Some ''pageHeader'')],
                       StartTag ''div'' attrs, Data a, EndTag ''div'',
                       Data b, EndTag ''div'']) = page_header p @ a \<and>
         text_parts (feed p [StartTag ''div'' [(''class'', Some ''pageHeader'')],
                       StartTag ''div'' attrs, Data a, EndTag ''div'',
                       Data b, EndTag ''div'']) = text_parts p @ [b]"
proof -
  define p1 where "p1 = handle_starttag p ''div'' [(''class'', Some ''pageHeader'')]"
  define p2 where "p2 = handle_starttag p1 ''div'' attrs"
  define p3 where "p3 = handle_data p2 a"
  define p4 where "p4 = handle_endtag p3 ''div''"
  define p5 where "p5 = handle_data p4 b"
  define p6 where "p6 = handle_endtag p5 ''div''"
  have f1: "in_body p1 \<and> in_page_header p1 \<and> page_header p1 = page_header p \<and>
            text_parts p1 = text_parts p"
    unfolding p1_def using starttag_div_fields[OF assms] starttag_header_fields[OF assms]
    by simp
  then have f2: "in_body p2 \<and> in_page_header p2 \<and> page_header p2 = page_header p \<and>
            text_parts p2 = text_parts p"
    unfolding p2_def using starttag_div_fields[of p1 attrs] by simp
  then have f3: "in_body p3 \<and> page_header p3 = page_header p @ a \<and>
            text_parts p3 = text_parts p"
    unfolding p3_def using data_in_header_fields[of p2 a] by simp
  then have f4: "in_body p4 \<and> \<not> in_page_header p4 \<and> \<not> in_title p4 \<and>
            page_header p4 = page_header p @ a \<and> text_parts p4 = text_parts p"
    unfolding p4_def using endtag_div_fields[of p3] by simp
  then have f5: "page_header p5 = page_header p @ a \<and> text_parts p5 = text_parts p @ [b]"
    unfolding p5_def using data_in_body_fields[of p4 b] by simp
  then have f6: "page_header p6 = page_header p @ a \<and> text_parts p6 = text_parts p @ [b]"
    unfolding p6_def using endtag_div_fields[of p5] by simp
  have "feed p [StartTag ''div'' [(''class'', Some ''pageHeader'')],
                       StartTag ''div'' attrs, Data a, EndTag ''div'',
                       Data b, EndTag ''div''] = p6"
    by (simp add: feed_def p1_def p2_def p3_def p4_def p5_def p6_def)
  with f6 show ?thesis by simp
qed

lemma starttag_keeps_flags:
  "(in_page_header p \<longrightarrow> in_page_header (handle_starttag p tag attrs)) \<and>
   (in_title p \<longrightarrow> in_title (handle_starttag p tag attrs))"
  by (simp add: handle_starttag_def Let_def)

lemma starttag_opens_header:
  assumes "in_body p" "attr_class attrs = Some (Some ''pageHeader'')"
  shows "in_page_header (handle_starttag p ''div'' attrs)"
  using assms by (simp add: handle_starttag_def Let_def)

lemma starttag_opens_title:
  assumes "in_body p" "attr_class attrs = Some (Some ''title'')"
  shows "in_title (handle_starttag p ''div'' attrs)"
  using assms by (simp add: handle_starttag_def Let_def)

lemma data_page_header:
  "page_header (handle_data p a) =
     (if in_body p \<and> in_page_header p then page_header p @ a else page_header p)"
  by (simp add: handle_data_def)

lemma data_after_closing_div:
  assumes "in_body p"
  shows "page_header (handle_data (handle_endtag p ''div'') b) = page_header p \<and>
         title (handle_data (handle_endtag p ''div'') b) = title p \<and>
         text_parts (handle_data (handle_endtag p ''div'') b) = text_parts p @ [b]"
proof -
  from endtag_div_fields[of p] assms
  have "in_body (handle_endtag p ''div'')" "\<not> in_page_header (handle_endtag p ''div'')"
       "\<not> in_title (handle_endtag p ''div'')" by simp_all
  from data_in_body_fields[OF this, of b] endtag_div_fields[of p] show ?thesis by simp
qed

lemma feed_closing_div_data:
  "feed q (es @ [EndTag ''div'', Data b]) = handle_data (handle_endtag (feed q es) ''div'') b"
  by (simp add: feed_def)

text \<open>
  Claim C7, as the code has it: the in-page-header state (and likewise the in-title state)
  is turned on by the opening of a page header (title) \<^verbatim>\<open>div\<close> inside the body, is turned
  off by the closing tag of any \<^verbatim>\<open>div\<close>, is changed by no other closing tag and is turned
  off by no opening tag; a text goes to the header text exactly when the parser is in the
  body with the state on. So on every input the text that directly follows a closing tag
  of a \<^verbatim>\<open>div\<close> inside the body goes to the body fragments and not to the header text, as
  does the text after the close of a \<^verbatim>\<open>div\<close> nested in a page header container; in a page
  header container that holds a nested \<^verbatim>\<open>div\<close> with a text and then a text, the first text
  goes to the header text and the second to the body fragments.
\<close>

theorem closing_div_ends_page_header:
  "\<not> in_page_header (handle_endtag p ''div'') \<and>
   \<not> in_title (handle_endtag p ''div'') \<and>
   (tag \<noteq> ''div'' \<longrightarrow>
      in_page_header (handle_endtag p tag) = in_page_header p \<and>
      in_title (handle_endtag p tag) = in_title p) \<and>
   (in_page_header p \<longrightarrow> in_page_header (handle_starttag p tag attrs)) \<and>
   (in_title p \<longrightarrow> in_title (handle_starttag p tag attrs)) \<and>
   (in_body p \<and> attr_class attrs = Some (Some ''pageHeader'') \<longrightarrow>
      in_page_header (handle_starttag p ''div'' attrs)) \<and>
   (in_body p \<and> attr_class attrs = Some (Some ''title'') \<longrightarrow>
      in_title (handle_starttag p ''div'' attrs)) \<and>
   page_header (handle_data p a) =
     (if in_body p \<and> in_page_header p then page_header p @ a else page_header p) \<and>
   (in_body (feed q es) \<longrightarrow>
      page_header (feed q (es @ [EndTag ''div'', Data b])) = page_header (feed q es) \<and>
      title (feed q (es @ [EndTag ''div'', Data b])) = title (feed q es) \<and>
      text_parts (feed q (es @ [EndTag ''div'', Data b])) = text_parts (feed q es) @ [b]) \<and>
   (in_body p \<longrightarrow>
      page_header (feed p [StartTag ''div'' [(''class'', Some ''pageHeader'')],
                           StartTag ''div'' attrs, Data a, EndTag ''div'',
                           Data b, EndTag ''div'']) = page_header p @ a \<and>
      text_parts (feed p [StartTag ''div'' [(''class'', Some ''pageHeader'')],
                          StartTag ''div'' attrs, Data a, EndTag ''div'',
                          Data b, EndTag ''div'']) = text_parts p @ [b])"
proof -
  have 1: "\<not> in_page_header (handle_endtag p ''div'') \<and>
           \<not> in_title (handle_endtag p ''div'')"
    using endtag_div_fields[of p] by blast
  have 2: "tag \<noteq> ''div'' \<longrightarrow>
      in_page_header (handle_endtag p tag) = in_page_header p \<and>
      in_title (handle_endtag p tag) = in_title p"
    using endtag_other_fields[of tag p] by blast
  have 3: "in_body p \<and> attr_class attrs = Some (Some ''pageHeader'') \<longrightarrow>
      in_page_header (handle_starttag p ''div'' attrs)"
    using starttag_opens_header[of p attrs] by blast
  have 4: "in_body p \<and> attr_class attrs = Some (Some ''title'') \<longrightarrow>
      in_title (handle_starttag p ''div'' attrs)"
    using starttag_opens_title[of p attrs] by blast
  have 5: "in_body (feed q es) \<longrightarrow>
      page_header (feed q (es @ [EndTag ''div'', Data b])) = page_header (feed q es) \<and>
      title (feed q (es @ [EndTag ''div'', Data b])) = title (feed q es) \<and>
      text_parts (feed q (es @ [EndTag ''div'', Data b])) = text_parts (feed q es) @ [b]"
    unfolding feed_closing_div_data using data_after_closing_div[of "feed q es" b] by blast
  have 6: "in_body p \<longrightarrow>
      page_header (feed p [StartTag ''div'' [(''class'', Some ''pageHeader'')],
                           StartTag ''div'' attrs, Data a, EndTag ''div'',
                           Data b, EndTag ''div'']) = page_header p @ a \<and>
      text_parts (feed p [StartTag ''div'' [(''class'', Some ''pageHeader'')],
                          StartTag ''div'' attrs, Data a, EndTag ''div'',
                          Data b, EndTag ''div'']) = text_parts p @ [b]"
    using nested_div_feed[of p attrs a b] by blast
  from 1 2 3 4 5 6 starttag_keeps_flags[of p tag attrs] data_page_header[of p a]
  show ?thesis by (intro conjI) blast+
qed

text \<open>
  The theorem on the events of a page: the header holds a nested \<^verbatim>\<open>div\<close>, and the text
  after the close of the nested \<^verbatim>\<open>div\<close> is the body fragment.
\<close>

theorem closing_div_ends_page_header_witness:
  "page_header (feed new_parser
      ([StartTag ''body'' [], StartTag ''div'' [(''class'', Some ''pageHeader'')],
        StartTag ''div'' [], Data ''quinta-feira''] @
       [EndTag ''div'', Data '', 3 de maio de 2024''])) = ''quinta-feira'' \<and>
   text_parts (feed new_parser
      ([StartTag ''body'' [], StartTag ''div'' [(''class'', Some ''pageHeader'')],
        StartTag ''div'' [], Data ''quinta-feira''] @
       [EndTag ''div'', Data '', 3 de maio de 2024''])) = ['', 3 de maio de 2024''] \<and>
   in_page_header (handle_endtag (handle new_parser (StartTag ''body'' [])) ''span'') =
     in_page_header (handle new_parser (StartTag ''body'' [])) \<and>
   in_page_header (handle_starttag (handle new_parser (StartTag ''body'' [])) ''div''
                     [(''class'', Some ''pageHeader'')])"
proof -
  have b: "in_body (handle new_parser (StartTag ''body'' []))"
    by (simp add: handle_starttag_def new_parser_def)
  have c: "attr_class [(''class'', Some ''pageHeader'')] = Some (Some ''pageHeader'')"
    by (simp add: attr_class_def)
  have t: "''span'' \<noteq> ''div''" by simp
  have f: "in_body (feed new_parser
             [StartTag ''body'' [], StartTag ''div'' [(''class'', Some ''pageHeader'')],
              StartTag ''div'' [], Data ''quinta-feira'']) \<and>
           page_header (feed new_parser
             [StartTag ''body'' [], StartTag ''div'' [(''class'', Some ''pageHeader'')],
              StartTag ''div'' [], Data ''quinta-feira'']) = ''quinta-feira'' \<and>
           text_parts (feed new_parser
             [StartTag ''body'' [], StartTag ''div'' [(''class'', Some ''pageHeader'')],
              StartTag ''div'' [], Data ''quinta-feira'']) = []"
    by code_simp
  from closing_div_ends_page_header
         [where p = "handle new_parser (StartTag ''body'' [])" and tag = "''span''"
            and attrs = "[(''class'', Some ''pageHeader'')]" and a = "''quinta-feira''"
            and q = new_parser
            and es = "[StartTag ''body'' [], StartTag ''div'' [(''class'', Some ''pageHeader'')],
                       StartTag ''div'' [], Data ''quinta-feira'']"
            and b = "'', 3 de maio de 2024''"]
       b c t f
  show ?thesis by (simp only: simp_thms append_Nil)
qed

text \<open>
  The claim C7 as stated fails on a page whose page header encloses a nested \<^verbatim>\<open>div\<close>:
  the text of the header after the nested \<^verbatim>\<open>div\<close> is in the body fragments, not in the
  header text, and the page has no date.
\<close>

theorem nested_header_counterexample:
  "page_header (feed new_parser nested_header_page) = ''quinta-feira'' \<and>
   text_parts (feed new_parser nested_header_page) =
     ['', 3 de maio de 2024'', [CHR 0x0A], ''Dia calmo.''] \<and>
   process_html_file nested_header_page = Inr (None, [], '', 3 de maio de 2024 Dia calmo.'')"
  by code_simp

section \<open>Properties of the run\<close>

text \<open>
  Claim C3, as the code has it: the run stops with the message that the store has no
  moods, before the supplementary list and any entry are read, exactly when the record
  store is read and yields no mood label, whatever the supplementary list holds. The mood
  pool is empty exactly when the store yields no label and the supplementary list is
  empty, so a run with an empty pool stops so; and a run whose store yields no label stops
  so even when the supplementary list has labels.
\<close>

theorem main_halts_iff_store_without_moods:
  "(main a w = NoMoods) = (load_existing_moods (csv_file w) = Inr {}) \<and>
   (build_mood_pool existing_moods extra_moods = {}) =
     (existing_moods = {} \<and> extra_moods = [])"
proof -
  have "(main a w = NoMoods) = (load_existing_moods (csv_file w) = Inr {})"
  proof (cases "load_existing_moods (csv_file w)")
    case (Inl e)
    then show ?thesis by (simp add: main_def)
  next
    case (Inr ms)
    show ?thesis
    proof (cases "ms = {}")
      case True
      with Inr show ?thesis by (simp add: main_def)
    next
      case False
      with Inr show ?thesis
        by (simp add: main_def split: sum.split)
    qed
  qed
  then show ?thesis by (simp add: build_mood_pool_def)
qed

text \<open>
  The claim C3 as stated fails on a store without records and a supplementary list with
  one label: the pool is not empty and the run stops with the message.
\<close>

theorem supplementary_moods_counterexample:
  "main default_args supplementary_only_world = NoMoods \<and>
   load_existing_moods (csv_file supplementary_only_world) = Inr {} \<and>
   load_moods_file (moods_file supplementary_only_world) = Inr [''Calm''] \<and>
   build_mood_pool {} [''Calm''] = {''Calm''}"
  by code_simp

text \<open>
  A run can also end before any entry by an exception, which is not that stop: here the
  store has moods and the directory of pages does not exist.
\<close>

lemma missing_directory_raises:
  "main default_args missing_directory_world = Raised OSError"
  by code_simp

text \<open>
  Claim C5, where the code departs from it: a header that names the 31st of April makes
  \<^verbatim>\<open>parse_date_from_header\<close> raise \<^verbatim>\<open>ValueError\<close>, and so does day 0; the run does not skip
  the entry, it ends with the exception, and the valid page after it is not read.
\<close>

theorem invalid_date_aborts_run:
  "parse_date_from_header ''31 de abril de 2024'' = Inl ValueError \<and>
   parse_date_from_header ''0 de maio de 2024'' = Inl ValueError \<and>
   main llm_off_args invalid_date_world = Raised ValueError"
  by code_simp

text \<open>The loop, unless an entry raises: the key set is the same for every entry.\<close>

lemma entries_loop_rows:
  assumes "\<forall>entry \<in> set es. \<not> isl (entry_record a rem pool api_key entry)"
  shows "entries_loop a rem pool api_key existing_keys es new_rows =
     Inr (new_rows @
          concat (map (\<lambda>entry. case entry_record a rem pool api_key entry of
                         Inr (Some (k, row)) \<Rightarrow>
                           if \<not> arg_force a \<and> k \<in> existing_keys then [] else [row]
                       | _ \<Rightarrow> []) es))"
  using assms
proof (induction es arbitrary: new_rows)
  case Nil
  then show ?case by simp
next
  case (Cons entry es)
  from Cons.prems have ih: "\<forall>entry \<in> set es. \<not> isl (entry_record a rem pool api_key entry)"
    by simp
  from Cons.prems obtain r where r: "entry_record a rem pool api_key entry = Inr r"
    by (cases "entry_record a rem pool api_key entry") auto
  show ?case
  proof (cases r)
    case None
    with r Cons.IH[OF ih] show ?thesis by simp
  next
    case (Some kr)
    obtain k row where kr: "kr = (k, row)" by (cases kr)
    with Some r Cons.IH[OF ih] show ?thesis by simp
  qed
qed

text \<open>The loop when an entry raises: it ends with an exception.\<close>

lemma entries_loop_raises:
  assumes "\<exists>entry \<in> set es. isl (entry_record a rem pool api_key entry)"
  shows "isl (entries_loop a rem pool api_key existing_keys es new_rows)"
  using assms
proof (induction es arbitrary: new_rows)
  case Nil
  then show ?case by simp
next
  case (Cons entry es)
  show ?case
  proof (cases "entry_record a rem pool api_key entry")
    case (Inl e)
    then show ?thesis by simp
  next
    case (Inr r)
    with Cons.prems have ex: "\<exists>entry \<in> set es. isl (entry_record a rem pool api_key entry)"
      by auto
    show ?thesis
    proof (cases r)
      case None
      with Inr Cons.IH[OF ex] show ?thesis by simp
    next
      case (Some kr)
      obtain k row where kr: "kr = (k, row)" by (cases kr)
      with Some Inr Cons.IH[OF ex] show ?thesis by simp
    qed
  qed
qed

text \<open>
  Claim C2, as the code has it. Take a run that reads its store, its supplementary moods
  and its directory, with moods in the store. When an entry raises, the run ends with an
  exception and accepts nothing. Otherwise the accepted records are the records of the
  entries, in the order of the file names, whose key is not in the key set read from the
  store before the loop (all of them when the override flag is on). The key set is the
  one of the store for every entry: the keys of the records accepted in the run are not
  added to it.
\<close>

theorem run_accepts_by_store_keys:
  assumes "load_existing_moods (csv_file w) = Inr moods" and "moods \<noteq> {}"
      and "load_moods_file (moods_file w) = Inr extra"
      and "parse_existing_keys (csv_file w) = Inr keys"
      and "entries_dir w = Inr listing"
  shows "if (\<exists>entry \<in> set listing.
               isl (entry_record a (remote w) (build_mood_pool moods extra)
                      (strip (env_api_key w)) entry))
         then (\<exists>e. main a w = Raised e)
         else main a w =
           (let rows =
                  concat (map (\<lambda>entry.
                      case entry_record a (remote w) (build_mood_pool moods extra)
                             (strip (env_api_key w)) entry of
                        Inr (Some (k, row)) \<Rightarrow>
                          if \<not> arg_force a \<and> k \<in> keys then [] else [row]
                      | _ \<Rightarrow> []) (sort_key fst listing))
            in if arg_dry_run a then DryRun rows else Appended rows)"
proof -
  let ?rec = "entry_record a (remote w) (build_mood_pool moods extra) (strip (env_api_key w))"
  let ?loop = "entries_loop a (remote w) (build_mood_pool moods extra)
                 (strip (env_api_key w)) keys (sort_key fst listing) []"
  have run: "main a w =
      (case ?loop of
         Inl e \<Rightarrow> Raised e
       | Inr new_rows \<Rightarrow>
           if arg_dry_run a then DryRun new_rows
           else if csv_file w = Absent then CsvMissing
           else Appended new_rows)"
    using assms by (simp add: main_def)
  have present: "csv_file w \<noteq> Absent"
    using assms(1,2) by (auto simp: load_existing_moods_def)
  show ?thesis
  proof (cases "\<exists>entry \<in> set listing. isl (?rec entry)")
    case True
    then have "\<exists>entry \<in> set (sort_key fst listing). isl (?rec entry)" by simp
    from entries_loop_raises[OF this, of keys "[]"] obtain e where "?loop = Inl e"
      by (cases ?loop) auto
    with run have "main a w = Raised e" by simp
    with True show ?thesis by auto
  next
    case False
    then have "\<forall>entry \<in> set (sort_key fst listing). \<not> isl (?rec entry)" by simp
    from entries_loop_rows[OF this, of keys "[]"] run present False
    show ?thesis by (simp add: Let_def)
  qed
qed

text \<open>
  The theorem on a run whose store has the record of the first page: the entry of that
  page is skipped, and the two entries with the same page and a key that is not in the
  store are both accepted.
\<close>

theorem run_accepts_by_store_keys_witness:
  "main llm_off_args mixed_world =
     Appended [build_row ''2024 Sat May 4 12:00 PM'' [] ''Dia bom.'' ''Dia bom.'' [],
               build_row ''2024 Sat May 4 12:00 PM'' [] ''Dia bom.'' ''Dia bom.'' []]"
proof -
  let ?rec = "entry_record llm_off_args (remote mixed_world)
                (build_mood_pool {''Anxious'', ''Motivated''} [])
                (strip (env_api_key mixed_world))"
  have h1: "load_existing_moods (csv_file mixed_world) = Inr {''Anxious'', ''Motivated''}"
    by code_simp
  have h2: "{''Anxious'', ''Motivated''} \<noteq> ({} :: string set)" by simp
  have h3: "load_moods_file (moods_file mixed_world) = Inr []" by code_simp
  have h4: "parse_existing_keys (csv_file mixed_world) =
              Inr {(''2024 Fri M'', ''Dia calmo.'', ''Dia calmo.'')}"
    by code_simp
  have h5: "entries_dir mixed_world = Inr mixed_listing"
    by (simp add: mixed_world_def)
  have s: "sort_key fst mixed_listing =
      [(''a.html'', page_of ''3 de maio de 2024'' ''Dia calmo.''),
       (''b.html'', page_of ''4 de maio de 2024'' ''Dia bom.''),
       (''c.html'', page_of ''4 de maio de 2024'' ''Dia bom.'')]"
    by code_simp
  have ea: "?rec (''a.html'', page_of ''3 de maio de 2024'' ''Dia calmo.'') =
      Inr (Some ((''2024 Fri M'', ''Dia calmo.'', ''Dia calmo.''),
        build_row ''2024 Fri May 3 12:00 PM'' [] ''Dia calmo.'' ''Dia calmo.'' []))"
    by code_simp
  have eb: "?rec (''b.html'', page_of ''4 de maio de 2024'' ''Dia bom.'') =
      Inr (Some ((''2024 Sat M'', ''Dia bom.'', ''Dia bom.''),
        build_row ''2024 Sat May 4 12:00 PM'' [] ''Dia bom.'' ''Dia bom.'' []))"
    by code_simp
  have ec: "?rec (''c.html'', page_of ''4 de maio de 2024'' ''Dia bom.'') =
      Inr (Some ((''2024 Sat M'', ''Dia bom.'', ''Dia bom.''),
        build_row ''2024 Sat May 4 12:00 PM'' [] ''Dia bom.'' ''Dia bom.'' []))"
    by code_simp
  have none: "\<not> (\<exists>entry \<in> set mixed_listing. isl (?rec entry))"
    using ea eb ec by (simp add: mixed_listing_def)
  have off: "\<not> arg_force llm_off_args \<and> \<not> arg_dry_run llm_off_args"
    by (simp add: llm_off_args_def default_args_def)
  have diff: "(''2024 Sat M'', ''Dia bom.'', ''Dia bom.'') \<noteq>
              (''2024 Fri M'', ''Dia calmo.'', ''Dia calmo.'')"
    by simp
  from run_accepts_by_store_keys[OF h1 h2 h3 h4 h5, of llm_off_args] none
  have "main llm_off_args mixed_world =
     (let rows =
            concat (map (\<lambda>entry.
                case ?rec entry of
                  Inr (Some (k, row)) \<Rightarrow>
                    if \<not> arg_force llm_off_args \<and>
                       k \<in> {(''2024 Fri M'', ''Dia calmo.'', ''Dia calmo.'')}
                    then [] else [row]
                | _ \<Rightarrow> []) (sort_key fst mixed_listing))
      in if arg_dry_run llm_off_args then DryRun rows else Appended rows)"
    by (simp only: if_False)
  then show ?thesis
    unfolding s using ea eb ec off diff by (simp add: Let_def)
qed

text \<open>
  The claim C2 as stated fails on a run over two files with the same page, the override
  flag off: the two entries have the same key, and the run appends both records.
\<close>

theorem duplicate_entries_counterexample:
  "\<not> arg_force llm_off_args \<and>
   main llm_off_args duplicate_world = Appended
     [[''2024 Fri May 3 12:00 PM'', [], [], [], [], [], [], [], [], [], [], [], [],
       [], [], ''Dia calmo.'', ''Dia calmo.'', []],
      [''2024 Fri May 3 12:00 PM'', [], [], [], [], [], [], [], [], [], [], [], [],
       [], [], ''Dia calmo.'', ''Dia calmo.'', []]]"
  by code_simp

end
